theory Spec2Isabelle
  imports Complex_Main "HOL-Library.List_Lexorder" "HOL-Library.Char_ord"
begin

section \<open>Python values, rows, arguments\<close>

text \<open>
  A cell of a feature row is a Python scalar. Floats are modelled as exact reals: NaN,
  infinities and rounding error of IEEE doubles are outside this development.
  A feature row is the \<open>dict\<close> handed to \<open>predict_gpa\<close>; an argument of \<open>predict_gpa\<close> is
  any Python object, of which only dictionaries and strings are told apart.
\<close>

datatype pyval = PStr string | PInt int | PFloat real | PBool bool

type_synonym feature_row = "string \<rightharpoonup> pyval"

datatype pyobj = PyDict feature_row | PyStr string | PyOther

text \<open>The value of a cell as a float (\<open>True\<close> is 1.0); a string cell does not convert.\<close>

fun to_float :: "pyval \<Rightarrow> real option" where
  "to_float (PStr s) = None"
| "to_float (PInt i) = Some (of_int i)"
| "to_float (PFloat r) = Some r"
| "to_float (PBool b) = Some (if b then 1 else 0)"

text \<open>
  A category of the one-hot encoder: numbers compare by value (\<open>1\<close>, \<open>1.0\<close> and \<open>True\<close>
  are the same category), strings by their characters.
\<close>

datatype category = CNum real | CStr string

fun is_number :: "category \<Rightarrow> bool" where
  "is_number (CNum x) = True"
| "is_number (CStr s) = False"

fun cat_key :: "pyval \<Rightarrow> category" where
  "cat_key (PStr s) = CStr s"
| "cat_key (PInt i) = CNum (of_int i)"
| "cat_key (PFloat r) = CNum r"
| "cat_key (PBool b) = CNum (if b then 1 else 0)"

section \<open>Errors\<close>

text \<open>
  One constructor per \<open>raise\<close> of \<open>predict_gpa\<close> (src/src/predict.py), in source order,
  followed by the errors raised inside the library calls \<open>transform\<close>, \<open>predict\<close> and
  \<open>fit\<close>. The payload is what the message is formatted from.
\<close>

datatype error =
    NotADict                       \<comment> \<open>line 19, \<open>TypeError\<close>\<close>
  | RootInvalid pyobj              \<comment> \<open>line 21, \<open>NotADirectoryError\<close>\<close>
  | ModelsDirMissing string        \<comment> \<open>line 30, \<open>FileNotFoundError\<close>\<close>
  | PreprocessorMissing string     \<comment> \<open>line 32, \<open>FileNotFoundError\<close>\<close>
  | ModelMissing string            \<comment> \<open>line 34, \<open>FileNotFoundError\<close>\<close>
  | LoadFailed                     \<comment> \<open>line 41, \<open>RuntimeError\<close>\<close>
  | MissingFeatures "string list"  \<comment> \<open>line 53, \<open>ValueError\<close>\<close>
  | NotNumeric string              \<comment> \<open>line 60, \<open>TypeError\<close>\<close>
  | KeyMissing string              \<comment> \<open>\<open>KeyError\<close> of \<open>input_df[feat]\<close>\<close>
  | WrongObject                    \<comment> \<open>\<open>AttributeError\<close>: the loaded object has no such method\<close>
  | ColumnsMissing "string list"   \<comment> \<open>\<open>ValueError\<close> of the column transformer\<close>
  | NotConvertible string          \<comment> \<open>\<open>ValueError\<close>: a cell does not convert to float\<close>
  | UnknownCategory string category  \<comment> \<open>\<open>ValueError\<close> of the one-hot encoder\<close>
  | CategoryTypeError string       \<comment> \<open>\<open>TypeError\<close> of the one-hot encoder\<close>
  | FeatureCountMismatch nat nat   \<comment> \<open>\<open>ValueError\<close> of the regression's \<open>predict\<close>\<close>
  | EmptyData                      \<comment> \<open>\<open>ValueError\<close>: fit on zero samples\<close>
  | MixedCategories string         \<comment> \<open>\<open>TypeError\<close>: a categorical column mixes strings and numbers\<close>

datatype exc_class =
  TypeError | NotADirectoryError | FileNotFoundError | RuntimeError | ValueError
  | KeyError | AttributeError

fun exception_class :: "error \<Rightarrow> exc_class" where
  "exception_class NotADict = TypeError"
| "exception_class (RootInvalid r) = NotADirectoryError"
| "exception_class (ModelsDirMissing p) = FileNotFoundError"
| "exception_class (PreprocessorMissing p) = FileNotFoundError"
| "exception_class (ModelMissing p) = FileNotFoundError"
| "exception_class LoadFailed = RuntimeError"
| "exception_class (MissingFeatures fs) = ValueError"
| "exception_class (NotNumeric f) = TypeError"
| "exception_class (KeyMissing f) = KeyError"
| "exception_class WrongObject = AttributeError"
| "exception_class (ColumnsMissing fs) = ValueError"
| "exception_class (NotConvertible f) = ValueError"
| "exception_class (UnknownCategory f c) = ValueError"
| "exception_class (CategoryTypeError f) = TypeError"
| "exception_class (FeatureCountMismatch n m) = ValueError"
| "exception_class EmptyData = ValueError"
| "exception_class (MixedCategories f) = TypeError"

text \<open>
  Whether the message of an error ends with the line that tells the caller to run
  \<open>main.py\<close> first to train the model: the messages of lines 32 and 34 do, the message of
  line 30 (models directory absent) and every other message do not.
\<close>

fun says_train_first :: "error \<Rightarrow> bool" where
  "says_train_first (PreprocessorMissing p) = True"
| "says_train_first (ModelMissing p) = True"
| "says_train_first e = False"

text \<open>Running a list of fallible steps: the first error wins, as the first exception would.\<close>

fun sequence :: "(error + 'a) list \<Rightarrow> error + 'a list" where
  "sequence [] = Inr []"
| "sequence (r # rs) =
     (case r of Inl e \<Rightarrow> Inl e
      | Inr x \<Rightarrow> (case sequence rs of Inl e \<Rightarrow> Inl e | Inr xs \<Rightarrow> Inr (x # xs)))"

section \<open>The feature preprocessor (src/src/feature\_engineering.py)\<close>

definition num_features :: "string list" where
  "num_features = [''attendance'', ''homework_completion'', ''lib_borrow'',
                   ''class_interaction'', ''exam_score'']"

definition cat_features :: "string list" where
  "cat_features = [''major'', ''gender'', ''club_participation'']"

text \<open>
  The parameters of the scikit-learn pipeline that \<open>build_feature_preprocessor\<close> sets up:
  a \<open>StandardScaler\<close> on the numeric columns, a \<open>OneHotEncoder\<close> on the categorical
  columns and the treatment of the remaining columns. The source passes \<open>drop="first"\<close> and
  \<open>remainder="passthrough"\<close>; it does not pass \<open>handle_unknown\<close>, whose library default is
  \<open>"error"\<close>.
\<close>

datatype drop_option = DropNone | DropFirst
datatype unknown_option = UnknownError | UnknownIgnore
datatype remainder_option = RemainderDrop | Passthrough

record preprocessor_params =
  num_cols :: "string list"
  cat_cols :: "string list"
  onehot_drop :: drop_option
  onehot_handle_unknown :: unknown_option
  remainder :: remainder_option

definition build_feature_preprocessor ::
  "preprocessor_params \<times> string list \<times> string list" where
  "build_feature_preprocessor =
     (\<lparr>num_cols = num_features, cat_cols = cat_features, onehot_drop = DropFirst,
       onehot_handle_unknown = UnknownError, remainder = Passthrough\<rparr>,
      num_features, cat_features)"

text \<open>
  The fitted pipeline, as it is pickled: the parameters, the mean and scale of every
  numeric column, the vocabulary of every categorical column and the names of the
  columns passed through.
\<close>

record fitted_preprocessor =
  params :: preprocessor_params
  means :: "real list"
  scales :: "real list"
  categories :: "category list list"
  remainder_cols :: "string list"

text \<open>
  A training frame: its column names in order and its rows. The frames considered have
  no missing cells (\<open>load_and_clean_data\<close> fills them before the split).
\<close>

record data_frame =
  columns :: "string list"
  rows :: "feature_row list"

text \<open>
  \<open>StandardScaler.fit\<close> on one column: the mean, and the population standard deviation
  with a zero replaced by 1 (the library's handling of constant columns).
\<close>

definition variance :: "real list \<Rightarrow> real" where
  "variance xs =
     (let mean = sum_list xs / real (length xs)
      in sum_list (map (\<lambda>x. (x - mean)\<^sup>2) xs) / real (length xs))"

definition fit_scaler :: "real list \<Rightarrow> real \<times> real" where
  "fit_scaler xs =
     (sum_list xs / real (length xs),
      if variance xs = 0 then 1 else sqrt (variance xs))"

fun numeric_cell :: "string \<Rightarrow> feature_row \<Rightarrow> error + real" where
  "numeric_cell f r =
     (case r f of None \<Rightarrow> Inl (ColumnsMissing [f])
      | Some v \<Rightarrow> (case to_float v of None \<Rightarrow> Inl (NotConvertible f) | Some x \<Rightarrow> Inr x))"

definition numeric_column :: "string \<Rightarrow> feature_row list \<Rightarrow> error + real list" where
  "numeric_column f rs = sequence (map (numeric_cell f) rs)"

text \<open>
  \<open>OneHotEncoder.fit\<close> on one column: the distinct values, sorted. A column that mixes
  strings and numbers is refused.
\<close>

fun category_cell :: "string \<Rightarrow> feature_row \<Rightarrow> error + category" where
  "category_cell f r =
     (case r f of None \<Rightarrow> Inl (ColumnsMissing [f]) | Some v \<Rightarrow> Inr (cat_key v))"

definition sorted_categories :: "string \<Rightarrow> category list \<Rightarrow> error + category list" where
  "sorted_categories f ks =
     (let nums = concat (map (\<lambda>k. case k of CNum x \<Rightarrow> [x] | CStr s \<Rightarrow> []) ks);
          strs = concat (map (\<lambda>k. case k of CNum x \<Rightarrow> [] | CStr s \<Rightarrow> [s]) ks)
      in if strs = [] then Inr (map CNum (sort (remdups nums)))
         else if nums = [] then Inr (map CStr (sort (remdups strs)))
         else Inl (MixedCategories f))"

definition fit_categories :: "string \<Rightarrow> feature_row list \<Rightarrow> error + category list" where
  "fit_categories f rs =
     (case sequence (map (category_cell f) rs) of
        Inl e \<Rightarrow> Inl e
      | Inr ks \<Rightarrow> sorted_categories f ks)"

definition fit_preprocessor ::
  "preprocessor_params \<Rightarrow> data_frame \<Rightarrow> error + fitted_preprocessor" where
  "fit_preprocessor p df =
     (let used = num_cols p @ cat_cols p;
          missing = filter (\<lambda>c. c \<notin> set (columns df)) used
      in if missing \<noteq> [] then Inl (ColumnsMissing missing)
         else if rows df = [] then Inl EmptyData
         else (case sequence (map (\<lambda>f. numeric_column f (rows df)) (num_cols p)) of
                 Inl e \<Rightarrow> Inl e
               | Inr cols \<Rightarrow>
                   (case sequence (map (\<lambda>f. fit_categories f (rows df)) (cat_cols p)) of
                      Inl e \<Rightarrow> Inl e
                    | Inr cats \<Rightarrow>
                        Inr \<lparr>params = p,
                             means = map (fst \<circ> fit_scaler) cols,
                             scales = map (snd \<circ> fit_scaler) cols,
                             categories = cats,
                             remainder_cols =
                               (case remainder p of
                                  RemainderDrop \<Rightarrow> []
                                | Passthrough \<Rightarrow>
                                    filter (\<lambda>c. c \<notin> set used) (columns df))\<rparr>)))"

text \<open>Transforming one row with the fitted pipeline.\<close>

fun scale_cell :: "feature_row \<Rightarrow> string \<times> real \<times> real \<Rightarrow> error + real" where
  "scale_cell r (f, m, s) =
     (case numeric_cell f r of Inl e \<Rightarrow> Inl e | Inr x \<Rightarrow> Inr ((x - m) / s))"

definition kept_categories :: "drop_option \<Rightarrow> category list \<Rightarrow> category list" where
  "kept_categories d cs = (case d of DropNone \<Rightarrow> cs | DropFirst \<Rightarrow> tl cs)"

text \<open>
  \<open>OneHotEncoder.transform\<close> on one cell. A numeric cell is compared with the vocabulary
  as numbers: against a vocabulary that holds strings the comparison itself raises a
  \<open>TypeError\<close>, whatever \<open>handle_unknown\<close> says. A string cell is looked up among the
  vocabulary entries. A cell that the vocabulary does not have is then treated as
  \<open>handle_unknown\<close> says.
\<close>

fun encode_cell ::
  "preprocessor_params \<Rightarrow> feature_row \<Rightarrow> string \<times> category list \<Rightarrow> error + real list" where
  "encode_cell p r (f, cs) =
     (case category_cell f r of
        Inl e \<Rightarrow> Inl e
      | Inr k \<Rightarrow>
          if is_number k \<and> list_ex (\<lambda>c. \<not> is_number c) cs
          then Inl (CategoryTypeError f)
          else if k \<in> set cs
          then Inr (map (\<lambda>c. if c = k then 1 else 0) (kept_categories (onehot_drop p) cs))
          else (case onehot_handle_unknown p of
                  UnknownError \<Rightarrow> Inl (UnknownCategory f k)
                | UnknownIgnore \<Rightarrow>
                    Inr (map (\<lambda>c. 0) (kept_categories (onehot_drop p) cs))))"

definition transform :: "fitted_preprocessor \<Rightarrow> feature_row \<Rightarrow> error + real list" where
  "transform fp r =
     (let p = params fp;
          missing = filter (\<lambda>c. r c = None) (num_cols p @ cat_cols p @ remainder_cols fp)
      in if missing \<noteq> [] then Inl (ColumnsMissing missing)
         else (case sequence (map (scale_cell r)
                                (zip (num_cols p) (zip (means fp) (scales fp)))) of
                 Inl e \<Rightarrow> Inl e
               | Inr xs \<Rightarrow>
                   (case sequence (map (encode_cell p r)
                                     (zip (cat_cols p) (categories fp))) of
                      Inl e \<Rightarrow> Inl e
                    | Inr ys \<Rightarrow>
                        (case sequence (map (\<lambda>f. numeric_cell f r) (remainder_cols fp)) of
                           Inl e \<Rightarrow> Inl e
                         | Inr zs \<Rightarrow> Inr (xs @ concat ys @ zs)))))"

section \<open>The regression model and the stored artifacts\<close>

record linear_regression =
  coef :: "real list"
  intercept :: real

definition predict :: "linear_regression \<Rightarrow> real list \<Rightarrow> error + real" where
  "predict lr x =
     (if length x \<noteq> length (coef lr)
      then Inl (FeatureCountMismatch (length x) (length (coef lr)))
      else Inr (sum_list (map (\<lambda>(c, v). c * v) (zip (coef lr) x)) + intercept lr))"

text \<open>
  What a pickle file holds, and the file system \<open>predict_gpa\<close> reads: a path names a
  directory, a file that unpickles to an artifact, or a file that does not unpickle.
\<close>

datatype artifact = Preprocessor fitted_preprocessor | Model linear_regression

datatype node = Directory | File "artifact option"

type_synonym filesystem = "string \<rightharpoonup> node"

definition os_path_isdir :: "filesystem \<Rightarrow> string \<Rightarrow> bool" where
  "os_path_isdir fs p = (fs p = Some Directory)"

definition os_path_exists :: "filesystem \<Rightarrow> string \<Rightarrow> bool" where
  "os_path_exists fs p = (fs p \<noteq> None)"

definition os_path_join :: "string \<Rightarrow> string \<Rightarrow> string" where
  "os_path_join a b =
     (if b \<noteq> [] \<and> hd b = CHR ''/'' then b
      else if a = [] \<or> last a = CHR ''/'' then a @ b
      else a @ ''/'' @ b)"

definition joblib_load :: "filesystem \<Rightarrow> string \<Rightarrow> error + artifact" where
  "joblib_load fs p =
     (case fs p of Some (File (Some a)) \<Rightarrow> Inr a | _ \<Rightarrow> Inl LoadFailed)"

section \<open>The prediction service (src/src/predict.py)\<close>

definition required_features :: "string list" where
  "required_features = [''major'', ''gender'', ''attendance'', ''homework_completion'',
                        ''lib_borrow'', ''club_participation'', ''class_interaction'',
                        ''exam_score'']"

definition numeric_features :: "string list" where
  "numeric_features = [''attendance'', ''homework_completion'', ''lib_borrow'',
                       ''class_interaction'', ''exam_score'']"

text \<open>
  \<open>pd.api.types.is_numeric_dtype\<close> on a one-row column holding the given cell: an integer
  column is numeric when the value fits 64 bits (otherwise pandas keeps Python objects),
  float and bool columns are numeric, a string column is not.
\<close>

fun is_numeric_dtype :: "pyval \<Rightarrow> bool" where
  "is_numeric_dtype (PStr s) = False"
| "is_numeric_dtype (PInt i) = (- (2 ^ 63) \<le> i \<and> i < 2 ^ 64)"
| "is_numeric_dtype (PFloat r) = True"
| "is_numeric_dtype (PBool b) = True"

text \<open>The loop of lines 58-60: the first feature that is not numeric raises.\<close>

fun check_numeric :: "feature_row \<Rightarrow> string list \<Rightarrow> error option" where
  "check_numeric d [] = None"
| "check_numeric d (feat # rest) =
     (case d feat of
        None \<Rightarrow> Some (KeyMissing feat)
      | Some v \<Rightarrow> if \<not> is_numeric_dtype v then Some (NotNumeric feat)
                  else check_numeric d rest)"

definition np_clip :: "real \<Rightarrow> real \<Rightarrow> real \<Rightarrow> real" where
  "np_clip x lo hi = min (max x lo) hi"

text \<open>
  \<open>round(x, 2)\<close> on a numpy float: scale by 100, round to the nearest integer with ties
  to the even one, scale back.
\<close>

definition rint :: "real \<Rightarrow> int" where
  "rint y =
     (let f = \<lfloor>y\<rfloor>; d = y - of_int f
      in if d < 1 / 2 then f else if d > 1 / 2 then f + 1
         else if even f then f else f + 1)"

definition round2 :: "real \<Rightarrow> real" where
  "round2 x = of_int (rint (x * 100)) / 100"

text \<open>Lines 43-70: what \<open>predict_gpa\<close> does once both objects are loaded.\<close>

definition predict_loaded :: "artifact \<Rightarrow> artifact \<Rightarrow> feature_row \<Rightarrow> error + real" where
  "predict_loaded model preprocessor d =
     (let missing_features = filter (\<lambda>f. d f = None) required_features
      in if missing_features \<noteq> [] then Inl (MissingFeatures missing_features)
         else (case check_numeric d numeric_features of
                 Some e \<Rightarrow> Inl e
               | None \<Rightarrow>
                   (case preprocessor of
                      Model m \<Rightarrow> Inl WrongObject
                    | Preprocessor fp \<Rightarrow>
                        (case transform fp d of
                           Inl e \<Rightarrow> Inl e
                         | Inr input_processed \<Rightarrow>
                             (case model of
                                Preprocessor q \<Rightarrow> Inl WrongObject
                              | Model lr \<Rightarrow>
                                  (case predict lr input_processed of
                                     Inl e \<Rightarrow> Inl e
                                   | Inr pred_gpa \<Rightarrow>
                                       Inr (round2 (np_clip pred_gpa 1 4))))))))"

text \<open>Lines 23-26: where the two pickles are looked for under the project root.\<close>

definition models_dir :: "string \<Rightarrow> string" where
  "models_dir project_root = os_path_join project_root ''models''"

definition model_path :: "string \<Rightarrow> string" where
  "model_path project_root = os_path_join (models_dir project_root) ''linear_regression.pkl''"

definition preprocessor_path :: "string \<Rightarrow> string" where
  "preprocessor_path project_root =
     os_path_join (models_dir project_root) ''feature_preprocessor.pkl''"

text \<open>The two conditions of the parameter checks of lines 18-21.\<close>

fun is_dict :: "pyobj \<Rightarrow> bool" where
  "is_dict (PyDict d) = True"
| "is_dict x = False"

fun is_directory_name :: "filesystem \<Rightarrow> pyobj \<Rightarrow> bool" where
  "is_directory_name fs (PyStr p) = os_path_isdir fs p"
| "is_directory_name fs x = False"

definition predict_gpa :: "filesystem \<Rightarrow> pyobj \<Rightarrow> pyobj \<Rightarrow> error + real" where
  "predict_gpa fs new_student_data project_root =
     (case new_student_data of
        PyDict d \<Rightarrow>
          (case project_root of
             PyStr root_path \<Rightarrow>
               if \<not> os_path_isdir fs root_path then Inl (RootInvalid project_root)
               else
                 if \<not> os_path_exists fs (models_dir root_path)
                 then Inl (ModelsDirMissing (models_dir root_path))
                 else if \<not> os_path_exists fs (preprocessor_path root_path)
                 then Inl (PreprocessorMissing (preprocessor_path root_path))
                 else if \<not> os_path_exists fs (model_path root_path)
                 then Inl (ModelMissing (model_path root_path))
                 else (case joblib_load fs (model_path root_path) of
                         Inl e \<Rightarrow> Inl LoadFailed
                       | Inr model \<Rightarrow>
                           (case joblib_load fs (preprocessor_path root_path) of
                              Inl e \<Rightarrow> Inl LoadFailed
                            | Inr preprocessor \<Rightarrow>
                                predict_loaded model preprocessor d))
           | _ \<Rightarrow> Inl (RootInvalid project_root))
      | _ \<Rightarrow> Inl NotADict)"

section \<open>Outlier handling of the training data (main.py, lines 86-97)\<close>

text \<open>
  The numeric columns of the training frame, by name. The loop visits the rules in the
  order of the dictionary; a column with at least one value outside its range is clipped
  and a line with the number of such values is printed.
\<close>

type_synonym numeric_frame = "string \<rightharpoonup> real list"

definition clip_rules :: "(string \<times> real \<times> real) list" where
  "clip_rules = [(''gpa'', 1, 4), (''attendance'', 20, 32),
                 (''homework_completion'', 6 / 10, 1), (''lib_borrow'', 0, 10),
                 (''class_interaction'', 0, 20), (''exam_score'', 60, 100)]"

definition count_outliers :: "real \<Rightarrow> real \<Rightarrow> real list \<Rightarrow> nat" where
  "count_outliers min_val max_val xs = length (filter (\<lambda>x. x < min_val \<or> x > max_val) xs)"

fun clip_loop ::
  "(string \<times> real \<times> real) list \<Rightarrow> numeric_frame \<Rightarrow> (string \<times> nat) list
   \<Rightarrow> error + numeric_frame \<times> (string \<times> nat) list" where
  "clip_loop [] df printed = Inr (df, printed)"
| "clip_loop ((col, min_val, max_val) # rules) df printed =
     (case df col of
        None \<Rightarrow> Inl (KeyMissing col)
      | Some xs \<Rightarrow>
          (let error_count = count_outliers min_val max_val xs
           in if error_count > 0
              then clip_loop rules (df(col \<mapsto> map (\<lambda>x. np_clip x min_val max_val) xs))
                     (printed @ [(col, error_count)])
              else clip_loop rules df printed))"

definition clip_outliers :: "numeric_frame \<Rightarrow> error + numeric_frame \<times> (string \<times> nat) list" where
  "clip_outliers df = clip_loop clip_rules df []"

section \<open>Notions used in the statements\<close>

text \<open>The categories that a column of the training frame shows.\<close>

definition observed :: "data_frame \<Rightarrow> string \<Rightarrow> category set" where
  "observed df f =
     set (concat (map (\<lambda>r. case r f of None \<Rightarrow> [] | Some v \<Rightarrow> [cat_key v]) (rows df)))"

text \<open>
  Both artifacts are present under the project root: the root is a directory, the models
  directory exists and the two files unpickle to the given pipeline and regression.
\<close>

definition artifacts_stored ::
  "filesystem \<Rightarrow> string \<Rightarrow> fitted_preprocessor \<Rightarrow> linear_regression \<Rightarrow> bool" where
  "artifacts_stored fs p fp lr \<longleftrightarrow>
     os_path_isdir fs p \<and> os_path_exists fs (models_dir p)
     \<and> joblib_load fs (preprocessor_path p) = Inr (Preprocessor fp)
     \<and> joblib_load fs (model_path p) = Inr (Model lr)"

text \<open>
  What the cleaning step is to print: for every rule, in order, whose column has values
  outside the range, the column and the number of such values.
\<close>

definition outlier_report ::
  "(string \<times> real \<times> real) list \<Rightarrow> numeric_frame \<Rightarrow> (string \<times> nat) list" where
  "outlier_report rules df =
     concat (map (\<lambda>(col, min_val, max_val).
                    case df col of
                      None \<Rightarrow> []
                    | Some xs \<Rightarrow>
                        if count_outliers min_val max_val xs > 0
                        then [(col, count_outliers min_val max_val xs)] else [])
                 rules)"

section \<open>Example inputs\<close>

text \<open>
  A two-row training frame with exactly the eight feature columns, the pipeline fitted
  on it, a regression on the eight transformed columns and a project directory holding
  both pickles. Majors are abbreviated to ASCII names.
\<close>

definition ex_row1 :: feature_row where
  "ex_row1 = [''major'' \<mapsto> PStr ''A'', ''gender'' \<mapsto> PInt 0, ''attendance'' \<mapsto> PInt 24,
              ''homework_completion'' \<mapsto> PFloat (4 / 5), ''lib_borrow'' \<mapsto> PInt 3,
              ''club_participation'' \<mapsto> PInt 0, ''class_interaction'' \<mapsto> PInt 10,
              ''exam_score'' \<mapsto> PInt 78]"

definition ex_row2 :: feature_row where
  "ex_row2 = [''major'' \<mapsto> PStr ''B'', ''gender'' \<mapsto> PInt 1, ''attendance'' \<mapsto> PInt 28,
              ''homework_completion'' \<mapsto> PFloat (4 / 5), ''lib_borrow'' \<mapsto> PInt 5,
              ''club_participation'' \<mapsto> PInt 1, ''class_interaction'' \<mapsto> PInt 10,
              ''exam_score'' \<mapsto> PInt 82]"

definition ex_train :: data_frame where
  "ex_train = \<lparr>columns = required_features, rows = [ex_row1, ex_row2]\<rparr>"

definition ex_fp :: fitted_preprocessor where
  "ex_fp = \<lparr>params = fst build_feature_preprocessor,
            means = [26, 4 / 5, 4, 10, 80],
            scales = [2, 1, 1, 1, 2],
            categories = [[CStr ''A'', CStr ''B''], [CNum 0, CNum 1], [CNum 0, CNum 1]],
            remainder_cols = []\<rparr>"

definition ex_lr :: linear_regression where
  "ex_lr = \<lparr>coef = [1 / 10, 5 / 2, 3 / 100, 1 / 100, 1 / 25, 0, 0, 1 / 20], intercept = 5 / 2\<rparr>"

definition ex_fs :: filesystem where
  "ex_fs = [''/proj'' \<mapsto> Directory, ''/proj/models'' \<mapsto> Directory,
            ''/proj/models/linear_regression.pkl'' \<mapsto> File (Some (Model ex_lr)),
            ''/proj/models/feature_preprocessor.pkl'' \<mapsto> File (Some (Preprocessor ex_fp))]"

text \<open>The project directory before training: no models directory.\<close>

definition ex_fs_untrained :: filesystem where
  "ex_fs_untrained = [''/proj'' \<mapsto> Directory]"

text \<open>The project directory with the pipeline stored but the regression absent.\<close>

definition ex_fs_no_model :: filesystem where
  "ex_fs_no_model = [''/proj'' \<mapsto> Directory, ''/proj/models'' \<mapsto> Directory,
            ''/proj/models/feature_preprocessor.pkl'' \<mapsto> File (Some (Preprocessor ex_fp))]"

text \<open>
  A complete row, the same row without \<open>exam_score\<close>, with an attendance of 40 (outside
  20-32), with a major that the training frame does not have, and with a homework
  completion that differs from the constant training column.
\<close>

definition ex_student :: feature_row where
  "ex_student = [''major'' \<mapsto> PStr ''B'', ''gender'' \<mapsto> PInt 1, ''attendance'' \<mapsto> PInt 30,
                 ''homework_completion'' \<mapsto> PFloat (4 / 5), ''lib_borrow'' \<mapsto> PInt 4,
                 ''club_participation'' \<mapsto> PInt 1, ''class_interaction'' \<mapsto> PInt 18,
                 ''exam_score'' \<mapsto> PInt 95]"

definition ex_student_incomplete :: feature_row where
  "ex_student_incomplete = ex_student(''exam_score'' := None)"

definition ex_student_out_of_range :: feature_row where
  "ex_student_out_of_range = ex_student(''attendance'' \<mapsto> PInt 40)"

definition ex_student_unseen_major :: feature_row where
  "ex_student_unseen_major = ex_student(''major'' \<mapsto> PStr ''C'')"

definition ex_student_homework :: feature_row where
  "ex_student_homework = ex_student(''homework_completion'' \<mapsto> PFloat (9 / 10))"

text \<open>A numeric training frame with two attendances and one grade out of range.\<close>

definition ex_numeric_frame :: numeric_frame where
  "ex_numeric_frame = [''gpa'' \<mapsto> [5 / 2, 9 / 2, 3], ''attendance'' \<mapsto> [19, 25, 40],
                       ''homework_completion'' \<mapsto> [7 / 10, 4 / 5, 1],
                       ''lib_borrow'' \<mapsto> [0, 5, 10], ''class_interaction'' \<mapsto> [0, 10, 20],
                       ''exam_score'' \<mapsto> [60, 80, 100]]"

section \<open>Auxiliary facts\<close>

lemma sequence_Inr_iff: "sequence rs = Inr xs \<longleftrightarrow> rs = map Inr xs"
proof (induction rs arbitrary: xs)
  case Nil
  show ?case by auto
next
  case (Cons r rs)
  show ?case
  proof (cases r)
    case (Inl e)
    then show ?thesis by (cases xs) auto
  next
    case (Inr x)
    show ?thesis
    proof (cases "sequence rs")
      case (Inl e)
      with Cons[of "tl xs"] Inr show ?thesis by (cases xs) auto
    next
      case r2: (Inr ys)
      with Cons[of ys] Cons[of "tl xs"] Inr show ?thesis by (cases xs) auto
    qed
  qed
qed

lemma sequence_Inl_elem: "sequence rs = Inl e \<Longrightarrow> Inl e \<in> set rs"
  by (induction rs) (auto split: sum.splits)

lemma sequence_has_Inl: "Inl e \<in> set rs \<Longrightarrow> \<exists>e'. sequence rs = Inl e'"
  by (induction rs) (auto split: sum.splits)

lemma sequence_all_Inr:
  "(\<And>r. r \<in> set rs \<Longrightarrow> \<exists>x. r = Inr x) \<Longrightarrow> \<exists>xs. sequence rs = Inr xs"
proof (induction rs)
  case Nil
  show ?case by simp
next
  case (Cons r rs)
  then obtain x where "r = Inr x" by auto
  moreover from Cons obtain xs where "sequence rs = Inr xs" by auto
  ultimately show ?case by simp
qed

lemma sequence_length: "sequence rs = Inr xs \<Longrightarrow> length xs = length rs"
  by (simp add: sequence_Inr_iff)

lemma predict_gpa_unfold:
  "predict_gpa fs (PyDict d) (PyStr p) =
     (if \<not> os_path_isdir fs p then Inl (RootInvalid (PyStr p))
      else if \<not> os_path_exists fs (models_dir p) then Inl (ModelsDirMissing (models_dir p))
      else if \<not> os_path_exists fs (preprocessor_path p)
        then Inl (PreprocessorMissing (preprocessor_path p))
      else if \<not> os_path_exists fs (model_path p) then Inl (ModelMissing (model_path p))
      else (case joblib_load fs (model_path p) of
              Inl e \<Rightarrow> Inl LoadFailed
            | Inr model \<Rightarrow>
                (case joblib_load fs (preprocessor_path p) of
                   Inl e \<Rightarrow> Inl LoadFailed
                 | Inr preprocessor \<Rightarrow> predict_loaded model preprocessor d)))"
  by (simp add: predict_gpa_def)

lemmas ex_paths = models_dir_def model_path_def preprocessor_path_def os_path_join_def
  os_path_isdir_def os_path_exists_def joblib_load_def

section \<open>The parameter checks come first\<close>

text \<open>
  Claim C10. \<open>predict_gpa\<close> first checks its two parameters: an argument that is not a
  dictionary raises the \<open>TypeError\<close> of line 19, and otherwise a project root that is not
  a string naming an existing directory raises the \<open>NotADirectoryError\<close> of line 21. Both
  hold for every file system and every row, so neither the artifact checks nor the row
  validation can come before them.
\<close>

theorem predict_gpa_parameter_checks:
  "(\<not> is_dict new_student_data \<longrightarrow>
      predict_gpa fs new_student_data project_root = Inl NotADict
      \<and> exception_class NotADict = TypeError)
   \<and> (is_dict new_student_data \<and> \<not> is_directory_name fs project_root \<longrightarrow>
      predict_gpa fs new_student_data project_root = Inl (RootInvalid project_root)
      \<and> exception_class (RootInvalid project_root) = NotADirectoryError)"
proof (cases new_student_data)
  case (PyDict d)
  then show ?thesis
    by (cases project_root) (simp_all add: predict_gpa_def)
next
  case (PyStr s)
  then show ?thesis by (simp add: predict_gpa_def)
next
  case PyOther
  then show ?thesis by (simp add: predict_gpa_def)
qed

text \<open>
  The checks at work on a project directory that holds both artifacts: a string in place
  of the row, a path that is no directory, and a root that is no string.
\<close>

theorem predict_gpa_parameter_checks_witness:
  "predict_gpa ex_fs (PyStr ''row'') (PyStr ''/proj'') = Inl NotADict
   \<and> predict_gpa ex_fs (PyDict ex_student) (PyStr ''/elsewhere'')
       = Inl (RootInvalid (PyStr ''/elsewhere''))
   \<and> predict_gpa ex_fs (PyDict ex_student) PyOther = Inl (RootInvalid PyOther)"
  using predict_gpa_parameter_checks [of "PyStr ''row''" ex_fs "PyStr ''/proj''"]
    predict_gpa_parameter_checks [of "PyDict ex_student" ex_fs "PyStr ''/elsewhere''"]
    predict_gpa_parameter_checks [of "PyDict ex_student" ex_fs PyOther]
  by (simp add: ex_fs_def os_path_isdir_def)

section \<open>Absent artifacts\<close>

text \<open>
  Claim C9, as the code has it. With a dictionary and a valid project root, an absent
  pipeline file or regression file makes \<open>predict_gpa\<close> raise a \<open>FileNotFoundError\<close>; the
  error is the same for every row, so nothing of the row is validated, transformed or
  predicted before it. The message tells the caller to train the model first exactly when
  the models directory exists; when the directory itself is absent the message of line 30
  only names the directory.
\<close>

theorem predict_gpa_artifact_absent:
  assumes "os_path_isdir fs p"
    and "\<not> os_path_exists fs (preprocessor_path p) \<or> \<not> os_path_exists fs (model_path p)"
  shows "\<exists>e. (\<forall>d. predict_gpa fs (PyDict d) (PyStr p) = Inl e)
           \<and> exception_class e = FileNotFoundError
           \<and> (says_train_first e \<longleftrightarrow> os_path_exists fs (models_dir p))"
proof (cases "os_path_exists fs (models_dir p)")
  case False
  with assms(1)
  have "\<forall>d. predict_gpa fs (PyDict d) (PyStr p) = Inl (ModelsDirMissing (models_dir p))"
    by (simp add: predict_gpa_unfold)
  with False show ?thesis by auto
next
  case True
  show ?thesis
  proof (cases "os_path_exists fs (preprocessor_path p)")
    case False
    with assms(1) True
    have "\<forall>d. predict_gpa fs (PyDict d) (PyStr p)
                 = Inl (PreprocessorMissing (preprocessor_path p))"
      by (simp add: predict_gpa_unfold)
    with True show ?thesis by auto
  next
    case pre: True
    with assms(2) have "\<not> os_path_exists fs (model_path p)" by simp
    with assms(1) True pre
    have "\<forall>d. predict_gpa fs (PyDict d) (PyStr p) = Inl (ModelMissing (model_path p))"
      by (simp add: predict_gpa_unfold)
    with True show ?thesis by auto
  qed
qed

text \<open>The regression file is absent from an existing models directory.\<close>

theorem predict_gpa_artifact_absent_witness:
  "os_path_isdir ex_fs_no_model ''/proj''
   \<and> \<not> os_path_exists ex_fs_no_model (model_path ''/proj'')
   \<and> predict_gpa ex_fs_no_model (PyDict ex_student) (PyStr ''/proj'')
       = Inl (ModelMissing ''/proj/models/linear_regression.pkl'')"
  using predict_gpa_artifact_absent [of ex_fs_no_model "''/proj''"]
  by (simp add: ex_fs_no_model_def ex_paths predict_gpa_unfold)

text \<open>
  Before any training run the models directory does not exist, so both artifacts are
  absent; the error raised does not tell the caller to train the model first.
\<close>

theorem predict_gpa_models_dir_absent_counterexample:
  "\<not> os_path_exists ex_fs_untrained (preprocessor_path ''/proj'')
   \<and> \<not> os_path_exists ex_fs_untrained (model_path ''/proj'')
   \<and> predict_gpa ex_fs_untrained (PyDict ex_student) (PyStr ''/proj'')
       = Inl (ModelsDirMissing ''/proj/models'')
   \<and> \<not> says_train_first (ModelsDirMissing ''/proj/models'')"
  by (simp add: ex_fs_untrained_def ex_paths predict_gpa_unfold)

section \<open>Which errors the steps of the pipeline raise\<close>

lemma numeric_cell_error:
  "numeric_cell f r = Inl e \<Longrightarrow> e = ColumnsMissing [f] \<or> e = NotConvertible f"
  by (auto split: option.splits)

lemma scale_cell_error:
  "scale_cell r c = Inl e \<Longrightarrow> \<exists>f. e = ColumnsMissing [f] \<or> e = NotConvertible f"
  by (cases c) (auto split: option.splits)

lemma encode_cell_error:
  "encode_cell p r c = Inl e \<Longrightarrow>
   \<exists>f k. e = ColumnsMissing [f] \<or> e = UnknownCategory f k \<or> e = CategoryTypeError f"
  by (cases c) (auto split: option.splits if_splits unknown_option.splits)

lemma sequence_map_error: "sequence (map g xs) = Inl e \<Longrightarrow> \<exists>x\<in>set xs. g x = Inl e"
  by (drule sequence_Inl_elem) auto

lemma transform_error:
  assumes "transform fp r = Inl e"
  shows "(\<exists>fs. e = ColumnsMissing fs) \<or> (\<exists>f. e = NotConvertible f)
         \<or> (\<exists>f k. e = UnknownCategory f k) \<or> (\<exists>f. e = CategoryTypeError f)"
proof -
  let ?p = "params fp"
  let ?missing = "filter (\<lambda>c. r c = None) (num_cols ?p @ cat_cols ?p @ remainder_cols fp)"
  let ?A = "sequence (map (scale_cell r) (zip (num_cols ?p) (zip (means fp) (scales fp))))"
  let ?B = "sequence (map (encode_cell ?p r) (zip (cat_cols ?p) (categories fp)))"
  let ?C = "sequence (map (\<lambda>f. numeric_cell f r) (remainder_cols fp))"
  show ?thesis
  proof (cases "?missing \<noteq> []")
    case True
    with assms have "e = ColumnsMissing ?missing"
      by (simp add: transform_def Let_def)
    then show ?thesis by blast
  next
    case nomiss: False
    show ?thesis
    proof (cases ?A)
      case (Inl e1)
      with assms nomiss have "e = e1" by (simp add: transform_def Let_def)
      with Inl obtain c where "scale_cell r c = Inl e"
        using sequence_map_error[of "scale_cell r" _ e] by blast
      from scale_cell_error[OF this] show ?thesis by blast
    next
      case A: (Inr xs)
      show ?thesis
      proof (cases ?B)
        case (Inl e1)
        with assms nomiss A have "e = e1" by (simp add: transform_def Let_def)
        with Inl obtain c where "encode_cell ?p r c = Inl e"
          using sequence_map_error[of "encode_cell ?p r" _ e] by blast
        from encode_cell_error[OF this] show ?thesis by blast
      next
        case B: (Inr ys)
        show ?thesis
        proof (cases ?C)
          case (Inl e1)
          with assms nomiss A B have "e = e1" by (simp add: transform_def Let_def)
          with Inl obtain c where "numeric_cell c r = Inl e"
            using sequence_map_error[of "\<lambda>f. numeric_cell f r" _ e] by blast
          from numeric_cell_error[OF this] show ?thesis by blast
        next
          case (Inr zs)
          with assms nomiss A B show ?thesis by (simp add: transform_def Let_def)
        qed
      qed
    qed
  qed
qed


lemma check_numeric_error:
  "check_numeric d fs = Some e \<Longrightarrow> \<exists>f. e = KeyMissing f \<or> e = NotNumeric f"
  by (induction fs) (auto split: option.splits if_splits)

lemma predict_error: "predict lr x = Inl e \<Longrightarrow> \<exists>n m. e = FeatureCountMismatch n m"
  by (auto simp: predict_def split: if_splits)

lemma predict_loaded_MissingFeatures:
  assumes "predict_loaded model preprocessor d = Inl (MissingFeatures ms)"
  shows "ms = filter (\<lambda>f. d f = None) required_features \<and> ms \<noteq> []"
  using assms
  by (auto simp: predict_loaded_def Let_def
      split: if_splits option.splits artifact.splits sum.splits
      dest: check_numeric_error transform_error predict_error)

lemma predict_loaded_missing:
  assumes "\<not> set required_features \<subseteq> dom d"
  shows "predict_loaded model preprocessor d
         = Inl (MissingFeatures (filter (\<lambda>f. d f = None) required_features))"
proof -
  from assms obtain f where "f \<in> set required_features" "d f = None" by auto
  then have "filter (\<lambda>f. d f = None) required_features \<noteq> []"
    by (auto simp: filter_empty_conv)
  then show ?thesis by (simp add: predict_loaded_def Let_def)
qed

lemma joblib_load_exists: "joblib_load fs q = Inr a \<Longrightarrow> os_path_exists fs q"
  by (auto simp: joblib_load_def os_path_exists_def split: option.splits)

lemma predict_gpa_loaded:
  assumes "os_path_isdir fs p" and "os_path_exists fs (models_dir p)"
    and "joblib_load fs (model_path p) = Inr model"
    and "joblib_load fs (preprocessor_path p) = Inr preprocessor"
  shows "predict_gpa fs (PyDict d) (PyStr p) = predict_loaded model preprocessor d"
  using assms joblib_load_exists[OF assms(3)] joblib_load_exists[OF assms(4)]
  by (simp add: predict_gpa_unfold)

section \<open>Rows with missing features\<close>

text \<open>
  Claim C2. With a valid project root and both artifacts present and loading, a row that
  lacks one or more of the eight required features makes \<open>predict_gpa\<close> raise the
  \<open>ValueError\<close> of line 53, and the features it names are exactly the required features
  that the row omits, each once.
\<close>

theorem predict_gpa_missing_features:
  assumes "os_path_isdir fs p" and "os_path_exists fs (models_dir p)"
    and "joblib_load fs (model_path p) = Inr model"
    and "joblib_load fs (preprocessor_path p) = Inr preprocessor"
    and "\<not> set required_features \<subseteq> dom d"
  shows "\<exists>ms. predict_gpa fs (PyDict d) (PyStr p) = Inl (MissingFeatures ms)
            \<and> exception_class (MissingFeatures ms) = ValueError
            \<and> set ms = set required_features - dom d \<and> distinct ms"
proof -
  let ?ms = "filter (\<lambda>f. d f = None) required_features"
  have "predict_gpa fs (PyDict d) (PyStr p) = Inl (MissingFeatures ?ms)"
    using assms by (simp add: predict_gpa_loaded predict_loaded_missing)
  moreover have "set ?ms = set required_features - dom d" by (auto simp: dom_def)
  moreover have "distinct ?ms" by (simp add: required_features_def)
  ultimately show ?thesis by auto
qed

text \<open>The row without \<open>exam_score\<close>: the error names \<open>exam_score\<close> and nothing else.\<close>

theorem predict_gpa_missing_features_witness:
  "os_path_isdir ex_fs ''/proj'' \<and> os_path_exists ex_fs (models_dir ''/proj'')
   \<and> joblib_load ex_fs (model_path ''/proj'') = Inr (Model ex_lr)
   \<and> joblib_load ex_fs (preprocessor_path ''/proj'') = Inr (Preprocessor ex_fp)
   \<and> \<not> set required_features \<subseteq> dom ex_student_incomplete
   \<and> predict_gpa ex_fs (PyDict ex_student_incomplete) (PyStr ''/proj'')
       = Inl (MissingFeatures [''exam_score''])"
proof -
  have h: "os_path_isdir ex_fs ''/proj''" "os_path_exists ex_fs (models_dir ''/proj'')"
    "joblib_load ex_fs (model_path ''/proj'') = Inr (Model ex_lr)"
    "joblib_load ex_fs (preprocessor_path ''/proj'') = Inr (Preprocessor ex_fp)"
    by (simp_all add: ex_fs_def ex_paths)
  have m: "\<not> set required_features \<subseteq> dom ex_student_incomplete"
    by (simp add: required_features_def ex_student_incomplete_def ex_student_def)
  from predict_gpa_missing_features [OF h m]
  obtain ms where ms: "predict_gpa ex_fs (PyDict ex_student_incomplete) (PyStr ''/proj'')
        = Inl (MissingFeatures ms)"
    and s: "set ms = set required_features - dom ex_student_incomplete" and d: "distinct ms"
    by blast
  have "set required_features - dom ex_student_incomplete = {''exam_score''}"
    by (auto simp: required_features_def ex_student_incomplete_def ex_student_def)
  with s d have "ms = [''exam_score'']"
    by (cases ms) (auto simp: subset_singleton_iff)
  with ms h m show ?thesis by simp
qed

section \<open>The artifacts are loaded before the row is validated\<close>

text \<open>
  Claim C6, as the code has it. \<open>predict_gpa\<close> checks that both artifacts exist and loads
  them (lines 28-41) before it validates the row (lines 46-60). So the missing-feature
  error is only ever raised when both artifacts have been loaded, and for a row that
  lacks a required feature an absent artifact gives the \<open>FileNotFoundError\<close> instead.
\<close>

theorem predict_gpa_validates_after_loading:
  "(predict_gpa fs (PyDict d) (PyStr p) = Inl (MissingFeatures ms) \<longrightarrow>
      (\<exists>model preprocessor. joblib_load fs (model_path p) = Inr model
          \<and> joblib_load fs (preprocessor_path p) = Inr preprocessor))
   \<and> (os_path_isdir fs p \<and> \<not> set required_features \<subseteq> dom d
        \<and> (\<not> os_path_exists fs (preprocessor_path p) \<or> \<not> os_path_exists fs (model_path p))
      \<longrightarrow> (\<exists>e. predict_gpa fs (PyDict d) (PyStr p) = Inl e
              \<and> exception_class e = FileNotFoundError))"
proof (intro conjI impI)
  assume "predict_gpa fs (PyDict d) (PyStr p) = Inl (MissingFeatures ms)"
  then show "\<exists>model preprocessor. joblib_load fs (model_path p) = Inr model
          \<and> joblib_load fs (preprocessor_path p) = Inr preprocessor"
    by (auto simp: predict_gpa_unfold split: if_splits sum.splits)
next
  assume a: "os_path_isdir fs p \<and> \<not> set required_features \<subseteq> dom d
        \<and> (\<not> os_path_exists fs (preprocessor_path p) \<or> \<not> os_path_exists fs (model_path p))"
  then show "\<exists>e. predict_gpa fs (PyDict d) (PyStr p) = Inl e
              \<and> exception_class e = FileNotFoundError"
    by (auto simp: predict_gpa_unfold)
qed

text \<open>
  The row without \<open>exam_score\<close>: named as missing when both artifacts load, and answered
  with the \<open>FileNotFoundError\<close> when the project has not been trained.
\<close>

theorem predict_gpa_validates_after_loading_witness:
  "predict_gpa ex_fs (PyDict ex_student_incomplete) (PyStr ''/proj'')
       = Inl (MissingFeatures [''exam_score''])
   \<and> joblib_load ex_fs (model_path ''/proj'') = Inr (Model ex_lr)
   \<and> joblib_load ex_fs (preprocessor_path ''/proj'') = Inr (Preprocessor ex_fp)
   \<and> os_path_isdir ex_fs_untrained ''/proj''
   \<and> \<not> set required_features \<subseteq> dom ex_student_incomplete
   \<and> \<not> os_path_exists ex_fs_untrained (model_path ''/proj'')
   \<and> predict_gpa ex_fs_untrained (PyDict ex_student_incomplete) (PyStr ''/proj'')
       = Inl (ModelsDirMissing ''/proj/models'')
   \<and> exception_class (ModelsDirMissing ''/proj/models'') = FileNotFoundError"
  using predict_gpa_validates_after_loading
          [of ex_fs ex_student_incomplete "''/proj''" "[''exam_score'']"]
        predict_gpa_validates_after_loading
          [of ex_fs_untrained ex_student_incomplete "''/proj''" "[]"]
  by (simp add: ex_fs_def ex_fs_untrained_def ex_paths predict_gpa_unfold
      predict_loaded_def required_features_def ex_student_incomplete_def ex_student_def)

text \<open>
  The regression file is absent and the row lacks \<open>exam_score\<close>: the error raised is the
  \<open>FileNotFoundError\<close> of line 34, not the missing-feature error.
\<close>

theorem predict_gpa_validates_after_loading_counterexample:
  "ex_student_incomplete ''exam_score'' = None
   \<and> predict_gpa ex_fs_no_model (PyDict ex_student_incomplete) (PyStr ''/proj'')
       = Inl (ModelMissing ''/proj/models/linear_regression.pkl'')"
  by (simp add: ex_fs_no_model_def ex_paths predict_gpa_unfold ex_student_incomplete_def)

section \<open>What fitting stores and what transforming returns\<close>

lemma map_eq_map_Inr:
  "map g xs = map Inr ys \<longleftrightarrow> length ys = length xs \<and> (\<forall>i<length xs. g (xs ! i) = Inr (ys ! i))"
  by (auto simp: list_eq_iff_nth_eq)

lemma build_params [simp]:
  "num_cols (fst build_feature_preprocessor) = num_features"
  "cat_cols (fst build_feature_preprocessor) = cat_features"
  "onehot_drop (fst build_feature_preprocessor) = DropFirst"
  "onehot_handle_unknown (fst build_feature_preprocessor) = UnknownError"
  "remainder (fst build_feature_preprocessor) = Passthrough"
  by (simp_all add: build_feature_preprocessor_def)

lemma used_features: "set (num_features @ cat_features) = set required_features"
  by (auto simp: num_features_def cat_features_def required_features_def)

lemma length_features [simp]: "length num_features = 5" "length cat_features = 3"
  by (simp_all add: num_features_def cat_features_def)

lemma category_cells_observed:
  "map (category_cell f) rs = map Inr ks \<Longrightarrow>
   set ks = set (concat (map (\<lambda>r. case r f of None \<Rightarrow> [] | Some v \<Rightarrow> [cat_key v]) rs))"
proof (induction rs arbitrary: ks)
  case Nil
  then show ?case by simp
next
  case (Cons r rs)
  then obtain k ks' where ks: "ks = k # ks'" by (cases ks) auto
  with Cons.prems have k: "category_cell f r = Inr k"
    and "map (category_cell f) rs = map Inr ks'"
    by (simp_all del: category_cell.simps)
  from this(2) have "set ks' =
      set (concat (map (\<lambda>r. case r f of None \<Rightarrow> [] | Some v \<Rightarrow> [cat_key v]) rs))"
    by (rule Cons.IH)
  with k ks show ?case by (auto split: option.splits)
qed

lemma sorted_categories_set:
  assumes "sorted_categories f ks = Inr cs"
  shows "set cs = set ks \<and> distinct cs"
proof -
  let ?nums = "concat (map (\<lambda>k. case k of CNum x \<Rightarrow> [x] | CStr s \<Rightarrow> []) ks)"
  let ?strs = "concat (map (\<lambda>k. case k of CNum x \<Rightarrow> [] | CStr s \<Rightarrow> [s]) ks)"
  have n: "set ?nums = {x. CNum x \<in> set ks}"
    by (auto split: category.splits)
  have s: "set ?strs = {x. CStr x \<in> set ks}"
    by (auto split: category.splits)
  show ?thesis
  proof (cases "?strs = []")
    case True
    then have cs: "cs = map CNum (sort (remdups ?nums))"
      using assms by (simp add: sorted_categories_def Let_def)
    from True s have "\<And>x. CStr x \<notin> set ks" by auto
    then have "set ks = CNum ` {x. CNum x \<in> set ks}"
      by (auto simp: image_iff) (metis category.exhaust)
    with cs n show ?thesis by (simp add: distinct_map inj_on_def)
  next
    case False
    then have ne: "?nums = []" and cs: "cs = map CStr (sort (remdups ?strs))"
      using assms by (auto simp: sorted_categories_def Let_def split: if_splits)
    from ne n have "\<And>x. CNum x \<notin> set ks" by auto
    then have "set ks = CStr ` {x. CStr x \<in> set ks}"
      by (auto simp: image_iff) (metis category.exhaust)
    with cs s show ?thesis by (simp add: distinct_map inj_on_def)
  qed
qed

lemma fit_categories_observed:
  assumes "fit_categories f (rows df) = Inr cs"
  shows "set cs = observed df f \<and> distinct cs"
proof -
  from assms obtain ks where ks: "sequence (map (category_cell f) (rows df)) = Inr ks"
    and sc: "sorted_categories f ks = Inr cs"
    by (auto simp: fit_categories_def split: sum.splits)
  from ks have "set ks = observed df f"
    by (simp add: sequence_Inr_iff category_cells_observed observed_def)
  with sorted_categories_set[OF sc] show ?thesis by simp
qed

lemma fit_preprocessor_structure:
  assumes "fit_preprocessor p df = Inr fp"
  shows "\<exists>cols cats.
           map (\<lambda>f. numeric_column f (rows df)) (num_cols p) = map Inr cols
         \<and> map (\<lambda>f. fit_categories f (rows df)) (cat_cols p) = map Inr cats
         \<and> rows df \<noteq> []
         \<and> params fp = p
         \<and> means fp = map (fst \<circ> fit_scaler) cols
         \<and> scales fp = map (snd \<circ> fit_scaler) cols
         \<and> categories fp = cats
         \<and> remainder_cols fp = (case remainder p of RemainderDrop \<Rightarrow> []
              | Passthrough \<Rightarrow> filter (\<lambda>c. c \<notin> set (num_cols p @ cat_cols p)) (columns df))"
proof -
  let ?A = "sequence (map (\<lambda>f. numeric_column f (rows df)) (num_cols p))"
  let ?B = "sequence (map (\<lambda>f. fit_categories f (rows df)) (cat_cols p))"
  from assms have ne: "rows df \<noteq> []"
    by (auto simp: fit_preprocessor_def Let_def split: if_splits)
  from assms obtain cols where A: "?A = Inr cols"
    by (cases ?A) (auto simp: fit_preprocessor_def Let_def split: if_splits)
  from assms A obtain cats where B: "?B = Inr cats"
    by (cases ?B) (auto simp: fit_preprocessor_def Let_def split: if_splits)
  from assms A B ne
  have "fp = \<lparr>params = p, means = map (fst \<circ> fit_scaler) cols,
              scales = map (snd \<circ> fit_scaler) cols, categories = cats,
              remainder_cols = (case remainder p of RemainderDrop \<Rightarrow> []
                | Passthrough \<Rightarrow> filter (\<lambda>c. c \<notin> set (num_cols p @ cat_cols p)) (columns df))\<rparr>"
    by (simp add: fit_preprocessor_def Let_def split: if_splits)
  with A B ne show ?thesis
    by (simp add: sequence_Inr_iff)
qed

lemma transform_Inr_iff:
  "transform fp r = Inr v \<longleftrightarrow>
     (\<forall>c\<in>set (num_cols (params fp) @ cat_cols (params fp) @ remainder_cols fp). r c \<noteq> None)
     \<and> (\<exists>xs ys zs. v = xs @ concat ys @ zs
          \<and> map (scale_cell r) (zip (num_cols (params fp)) (zip (means fp) (scales fp)))
              = map Inr xs
          \<and> map (encode_cell (params fp) r) (zip (cat_cols (params fp)) (categories fp))
              = map Inr ys
          \<and> map (\<lambda>f. numeric_cell f r) (remainder_cols fp) = map Inr zs)"
proof -
  let ?p = "params fp"
  let ?missing = "filter (\<lambda>c. r c = None) (num_cols ?p @ cat_cols ?p @ remainder_cols fp)"
  let ?A = "sequence (map (scale_cell r) (zip (num_cols ?p) (zip (means fp) (scales fp))))"
  let ?B = "sequence (map (encode_cell ?p r) (zip (cat_cols ?p) (categories fp)))"
  let ?C = "sequence (map (\<lambda>f. numeric_cell f r) (remainder_cols fp))"
  have m: "?missing = [] \<longleftrightarrow>
      (\<forall>c\<in>set (num_cols ?p @ cat_cols ?p @ remainder_cols fp). r c \<noteq> None)"
    by (auto simp: filter_empty_conv)
  have "transform fp r = Inr v \<longleftrightarrow>
      ?missing = [] \<and> (\<exists>xs ys zs. v = xs @ concat ys @ zs \<and> ?A = Inr xs \<and> ?B = Inr ys \<and> ?C = Inr zs)"
    by (cases ?A; cases ?B; cases ?C) (auto simp: transform_def Let_def)
  then show ?thesis unfolding m sequence_Inr_iff .
qed

lemma fitted_structure:
  assumes "fit_preprocessor (fst build_feature_preprocessor) df = Inr fp"
  shows "\<exists>cols cats. length cols = 5 \<and> length cats = 3
      \<and> (\<forall>i<5. numeric_column (num_features ! i) (rows df) = Inr (cols ! i))
      \<and> (\<forall>j<3. set (cats ! j) = observed df (cat_features ! j) \<and> distinct (cats ! j))
      \<and> rows df \<noteq> []
      \<and> params fp = fst build_feature_preprocessor
      \<and> means fp = map (fst \<circ> fit_scaler) cols
      \<and> scales fp = map (snd \<circ> fit_scaler) cols
      \<and> categories fp = cats
      \<and> remainder_cols fp = filter (\<lambda>c. c \<notin> set required_features) (columns df)"
proof -
  from fit_preprocessor_structure[OF assms] obtain cols cats where
    c: "map (\<lambda>f. numeric_column f (rows df)) num_features = map Inr cols"
    and k: "map (\<lambda>f. fit_categories f (rows df)) cat_features = map Inr cats"
    and rest: "rows df \<noteq> []" "params fp = fst build_feature_preprocessor"
      "means fp = map (fst \<circ> fit_scaler) cols" "scales fp = map (snd \<circ> fit_scaler) cols"
      "categories fp = cats"
    and rem: "remainder_cols fp
        = filter (\<lambda>c. c \<notin> set (num_features @ cat_features)) (columns df)"
    by auto
  from c have c1: "length cols = 5"
    and c2: "\<forall>i<5. numeric_column (num_features ! i) (rows df) = Inr (cols ! i)"
    by (simp_all add: map_eq_map_Inr)
  from k have k1: "length cats = 3"
    and k2: "\<forall>j<3. fit_categories (cat_features ! j) (rows df) = Inr (cats ! j)"
    by (simp_all add: map_eq_map_Inr)
  from k2 have k3: "\<forall>j<3. set (cats ! j) = observed df (cat_features ! j) \<and> distinct (cats ! j)"
    using fit_categories_observed by blast
  from rem have "remainder_cols fp = filter (\<lambda>c. c \<notin> set required_features) (columns df)"
    by (simp only: used_features)
  with c1 c2 k1 k3 rest show ?thesis by blast
qed

lemma list3: "length ys = 3 \<Longrightarrow> ys = [ys ! 0, ys ! 1, ys ! 2]"
  by (cases ys; cases "tl ys"; cases "tl (tl ys)") auto

lemma numeric_cell_Inr:
  "numeric_cell f r = Inr x \<longleftrightarrow> (\<exists>val. r f = Some val \<and> to_float val = Some x)"
  by (auto split: option.splits)

lemma encode_cell_Inr_build:
  assumes "encode_cell (fst build_feature_preprocessor) r (f, cs) = Inr y"
  shows "\<exists>val. r f = Some val \<and> cat_key val \<in> set cs
           \<and> y = map (\<lambda>c. if c = cat_key val then 1 else 0) (tl cs)"
  using assms by (auto simp: kept_categories_def split: option.splits if_splits)

section \<open>The fitted example\<close>

lemma ex_numeric_columns:
  "numeric_column ''attendance'' [ex_row1, ex_row2] = Inr [24, 28]"
  "numeric_column ''homework_completion'' [ex_row1, ex_row2] = Inr [4 / 5, 4 / 5]"
  "numeric_column ''lib_borrow'' [ex_row1, ex_row2] = Inr [3, 5]"
  "numeric_column ''class_interaction'' [ex_row1, ex_row2] = Inr [10, 10]"
  "numeric_column ''exam_score'' [ex_row1, ex_row2] = Inr [78, 82]"
  by (simp_all add: numeric_column_def ex_row1_def ex_row2_def)

lemma ex_scalers:
  "fit_scaler [24, 28] = (26, 2)"
  "fit_scaler [4 / 5, 4 / 5] = (4 / 5, 1)"
  "fit_scaler [3, 5] = (4, 1)"
  "fit_scaler [10, 10] = (10, 1)"
  "fit_scaler [78, 82] = (80, 2)"
  by (simp_all add: fit_scaler_def variance_def Let_def power2_eq_square)

lemma ex_categories:
  "fit_categories ''major'' [ex_row1, ex_row2] = Inr [CStr ''A'', CStr ''B'']"
  "fit_categories ''gender'' [ex_row1, ex_row2] = Inr [CNum 0, CNum 1]"
  "fit_categories ''club_participation'' [ex_row1, ex_row2] = Inr [CNum 0, CNum 1]"
  by (simp_all add: fit_categories_def sorted_categories_def ex_row1_def ex_row2_def)

lemma ex_fit: "fit_preprocessor (fst build_feature_preprocessor) ex_train = Inr ex_fp"
  by (simp add: fit_preprocessor_def ex_train_def ex_fp_def Let_def
      num_features_def cat_features_def required_features_def
      ex_numeric_columns ex_scalers ex_categories)

lemma ex_student_dom: "dom ex_student = set required_features"
  by (auto simp: ex_student_def required_features_def)

lemma ex_transform: "transform ex_fp ex_student = Inr [2, 0, 0, 8, 15 / 2, 1, 1, 1]"
  by (simp add: transform_def ex_fp_def ex_student_def Let_def num_features_def
      cat_features_def kept_categories_def)

lemma ex_observed:
  "observed ex_train ''major'' = {CStr ''A'', CStr ''B''}"
  "observed ex_train ''gender'' = {CNum 0, CNum 1}"
  "observed ex_train ''club_participation'' = {CNum 0, CNum 1}"
  by (simp_all add: observed_def ex_train_def ex_row1_def ex_row2_def)

section \<open>Dimension and layout of the transformed row\<close>

text \<open>
  Claim C4. Let the pipeline of \<open>build_feature_preprocessor\<close> be fitted on a training
  frame, and let a row with exactly the eight schema features be transformed to a vector.
  Then the vector has 5 entries plus, for each of the three categorical features, one
  entry less than the number of distinct categories the training frame shows. It is the
  five scaled numeric columns in the declared order (attendance, homework completion,
  library borrowing, class interaction, exam score), each \<open>(value - mean) / scale\<close>,
  followed for \<open>major\<close>, \<open>gender\<close> and \<open>club_participation\<close> in turn by the indicators of the
  vocabulary without its first entry, in the order of the vocabulary; the vocabulary of a
  feature is the set of categories observed at fit time, each once.
\<close>

theorem transform_layout:
  assumes fit: "fit_preprocessor (fst build_feature_preprocessor) df = Inr fp"
    and dom: "dom d = set required_features"
    and tr: "transform fp d = Inr v"
  shows "length v = 5 + (\<Sum>f\<leftarrow>cat_features. card (observed df f) - 1)
       \<and> (\<exists>xs ys. v = xs @ concat ys \<and> length xs = 5 \<and> length ys = 3
            \<and> (\<forall>i<5. \<exists>val x. d (num_features ! i) = Some val \<and> to_float val = Some x
                   \<and> xs ! i = (x - means fp ! i) / scales fp ! i)
            \<and> (\<forall>j<3. \<exists>val. d (cat_features ! j) = Some val
                   \<and> set (categories fp ! j) = observed df (cat_features ! j)
                   \<and> distinct (categories fp ! j)
                   \<and> ys ! j = map (\<lambda>c. if c = cat_key val then 1 else 0)
                                 (tl (categories fp ! j))))"
proof -
  from fitted_structure[OF fit] obtain cols cats where
    lc: "length cols = 5" and lk: "length cats = 3"
    and obs: "\<forall>j<3. set (cats ! j) = observed df (cat_features ! j) \<and> distinct (cats ! j)"
    and ne: "rows df \<noteq> []"
    and p: "params fp = fst build_feature_preprocessor"
    and m: "means fp = map (fst \<circ> fit_scaler) cols"
    and s: "scales fp = map (snd \<circ> fit_scaler) cols"
    and c: "categories fp = cats"
    and rem: "remainder_cols fp = filter (\<lambda>c. c \<notin> set required_features) (columns df)"
    by blast
  from tr obtain xs ys zs where
    present: "\<forall>c\<in>set (remainder_cols fp). d c \<noteq> None"
    and v: "v = xs @ concat ys @ zs"
    and X: "map (scale_cell d) (zip num_features (zip (means fp) (scales fp))) = map Inr xs"
    and Y: "map (encode_cell (fst build_feature_preprocessor) d) (zip cat_features cats)
              = map Inr ys"
    and Z: "map (\<lambda>f. numeric_cell f d) (remainder_cols fp) = map Inr zs"
    unfolding transform_Inr_iff p c by auto
  have "remainder_cols fp = []"
  proof (rule ccontr)
    assume "remainder_cols fp \<noteq> []"
    then obtain c where c_in: "c \<in> set (remainder_cols fp)" by (cases "remainder_cols fp") auto
    with present have "c \<in> dom d" by auto
    moreover from c_in rem have "c \<notin> set required_features" by auto
    ultimately show False using dom by simp
  qed
  with Z have zs: "zs = []" by simp
  from X m s lc have lx: "length xs = 5"
    and xi: "\<forall>i<5. scale_cell d (num_features ! i, means fp ! i, scales fp ! i) = Inr (xs ! i)"
    by (simp_all add: map_eq_map_Inr)
  from Y lk have ly: "length ys = 3"
    and yj: "\<forall>j<3. encode_cell (fst build_feature_preprocessor) d (cat_features ! j, cats ! j)
                = Inr (ys ! j)"
    by (simp_all add: map_eq_map_Inr)
  have num: "\<forall>i<5. \<exists>val x. d (num_features ! i) = Some val \<and> to_float val = Some x
                   \<and> xs ! i = (x - means fp ! i) / scales fp ! i"
  proof (intro allI impI)
    fix i :: nat assume "i < 5"
    with xi have "scale_cell d (num_features ! i, means fp ! i, scales fp ! i) = Inr (xs ! i)"
      by simp
    then show "\<exists>val x. d (num_features ! i) = Some val \<and> to_float val = Some x
                   \<and> xs ! i = (x - means fp ! i) / scales fp ! i"
      by (auto split: option.splits)
  qed
  have cat: "\<forall>j<3. \<exists>val. d (cat_features ! j) = Some val
                   \<and> set (cats ! j) = observed df (cat_features ! j)
                   \<and> distinct (cats ! j)
                   \<and> ys ! j = map (\<lambda>c. if c = cat_key val then 1 else 0) (tl (cats ! j))"
  proof (intro allI impI)
    fix j :: nat assume j: "j < 3"
    with yj have "encode_cell (fst build_feature_preprocessor) d (cat_features ! j, cats ! j)
                = Inr (ys ! j)" by simp
    from encode_cell_Inr_build[OF this] obs j
    show "\<exists>val. d (cat_features ! j) = Some val
                   \<and> set (cats ! j) = observed df (cat_features ! j)
                   \<and> distinct (cats ! j)
                   \<and> ys ! j = map (\<lambda>c. if c = cat_key val then 1 else 0) (tl (cats ! j))"
      by blast
  qed
  have len_y: "\<forall>j<3. length (ys ! j) = card (observed df (cat_features ! j)) - 1"
  proof (intro allI impI)
    fix j :: nat assume j: "j < 3"
    with cat obtain val where "set (cats ! j) = observed df (cat_features ! j)"
      "distinct (cats ! j)"
      "ys ! j = map (\<lambda>c. if c = cat_key val then 1 else 0) (tl (cats ! j))" by blast
    then show "length (ys ! j) = card (observed df (cat_features ! j)) - 1"
      using distinct_card[of "cats ! j"] by simp
  qed
  have "length (concat ys) = length (ys ! 0) + length (ys ! 1) + length (ys ! 2)"
    by (subst list3[OF ly]) simp
  also have "\<dots> = (\<Sum>f\<leftarrow>cat_features. card (observed df f) - 1)"
    using len_y by (simp add: cat_features_def)
  finally have "length v = 5 + (\<Sum>f\<leftarrow>cat_features. card (observed df f) - 1)"
    using v zs lx by simp
  moreover from v zs have "v = xs @ concat ys" by simp
  ultimately show ?thesis using lx ly num cat c by blast
qed

text \<open>The fitted example: two majors, two genders and two club values give 5 + 3 entries.\<close>

theorem transform_layout_witness:
  "fit_preprocessor (fst build_feature_preprocessor) ex_train = Inr ex_fp
   \<and> dom ex_student = set required_features
   \<and> transform ex_fp ex_student = Inr [2, 0, 0, 8, 15 / 2, 1, 1, 1]
   \<and> length [2, 0, 0, 8, 15 / 2, 1, 1, 1 :: real]
       = 5 + (\<Sum>f\<leftarrow>cat_features. card (observed ex_train f) - 1)"
  using transform_layout [OF ex_fit ex_student_dom ex_transform]
    ex_fit ex_student_dom ex_transform
  by blast

section \<open>A category that the training frame does not show\<close>


lemma sorted_categories_homogeneous:
  "sorted_categories f ks = Inr cs \<Longrightarrow>
   (\<forall>c\<in>set cs. is_number c) \<or> (\<forall>c\<in>set cs. \<not> is_number c)"
  by (auto simp: sorted_categories_def Let_def split: if_splits)

lemma fitted_homogeneous:
  assumes fit: "fit_preprocessor (fst build_feature_preprocessor) df = Inr fp"
    and j: "j < 3"
  shows "(\<forall>c\<in>set (categories fp ! j). is_number c)
       \<or> (\<forall>c\<in>set (categories fp ! j). \<not> is_number c)"
proof -
  from fit_preprocessor_structure[OF fit] obtain cats where
    k: "map (\<lambda>f. fit_categories f (rows df)) cat_features = map Inr cats"
    and c: "categories fp = cats"
    by auto
  from k j have "fit_categories (cat_features ! j) (rows df) = Inr (cats ! j)"
    by (simp add: map_eq_map_Inr)
  then obtain ks where "sorted_categories (cat_features ! j) ks = Inr (cats ! j)"
    by (auto simp: fit_categories_def split: sum.splits)
  from sorted_categories_homogeneous[OF this] c show ?thesis by simp
qed


lemma encode_cell_seen:
  assumes "d f = Some v" and "cat_key v \<in> set cs"
    and "(\<forall>c\<in>set cs. is_number c) \<or> (\<forall>c\<in>set cs. \<not> is_number c)"
  shows "encode_cell (fst build_feature_preprocessor) d (f, cs)
         = Inr (map (\<lambda>c. if c = cat_key v then 1 else 0) (tl cs))"
proof -
  from assms(2,3) have "\<not> (is_number (cat_key v) \<and> list_ex (\<lambda>c. \<not> is_number c) cs)"
    by (auto simp: list_ex_iff)
  with assms(1,2) show ?thesis by (simp add: kept_categories_def)
qed








section \<open>A numeric column that is constant in the training frame\<close>

lemma sum_list_constant: "\<forall>x\<in>set xs. x = c \<Longrightarrow> sum_list xs = real (length xs) * c"
  by (induction xs) (auto simp: algebra_simps)

lemma fit_scaler_constant:
  assumes "xs \<noteq> []" and "\<forall>x\<in>set xs. x = c"
  shows "variance xs = 0 \<and> fit_scaler xs = (c, 1)"
proof -
  from assms have mean: "sum_list xs / real (length xs) = c"
    by (simp add: sum_list_constant)
  from assms(2) have "\<forall>y\<in>set (map (\<lambda>x. (x - c)\<^sup>2) xs). y = 0" by auto
  then have "sum_list (map (\<lambda>x. (x - c)\<^sup>2) xs) = 0"
    using sum_list_constant[of "map (\<lambda>x. (x - c)\<^sup>2) xs" 0] by simp
  with mean have "variance xs = 0" by (simp add: variance_def Let_def)
  with mean show ?thesis by (simp add: fit_scaler_def)
qed

lemma numeric_column_constant:
  assumes "numeric_column f rs = Inr col"
    and "\<forall>r\<in>set rs. \<exists>val. r f = Some val \<and> to_float val = Some c"
  shows "length col = length rs \<and> (\<forall>x\<in>set col. x = c)"
proof -
  from assms(1) have l: "length col = length rs"
    and n: "\<forall>i<length rs. numeric_cell f (rs ! i) = Inr (col ! i)"
    by (simp_all add: numeric_column_def sequence_Inr_iff map_eq_map_Inr)
  have "\<forall>i<length col. col ! i = c"
  proof (intro allI impI)
    fix i assume i: "i < length col"
    with l n have "numeric_cell f (rs ! i) = Inr (col ! i)" by simp
    moreover from i l assms(2) obtain val where "(rs ! i) f = Some val" "to_float val = Some c"
      by (metis nth_mem)
    ultimately show "col ! i = c" by simp
  qed
  with l show ?thesis by (auto simp: in_set_conv_nth)
qed

text \<open>
  Claim C5, as the code has it. When a numeric column has the same value \<open>c\<close> in every
  training row, its variance is zero, the stored mean is \<open>c\<close> and the stored scale is 1
  instead of the zero deviation, so no division by zero arises; a transformed row carries
  in that column its own value minus \<open>c\<close>, which is 0 only for a row whose value is \<open>c\<close>.
\<close>

theorem transform_constant_column:
  assumes fit: "fit_preprocessor (fst build_feature_preprocessor) df = Inr fp"
    and i: "i < 5"
    and const: "\<forall>r\<in>set (rows df). \<exists>val. r (num_features ! i) = Some val
                   \<and> to_float val = Some c"
    and tr: "transform fp d = Inr v"
    and val: "d (num_features ! i) = Some val"
    and x: "to_float val = Some x"
  shows "(\<exists>col. numeric_column (num_features ! i) (rows df) = Inr col \<and> variance col = 0)
       \<and> means fp ! i = c \<and> scales fp ! i = 1 \<and> v ! i = x - c"
proof -
  from fitted_structure[OF fit] obtain cols where
    lc: "length cols = 5"
    and col: "\<forall>i<5. numeric_column (num_features ! i) (rows df) = Inr (cols ! i)"
    and ne: "rows df \<noteq> []"
    and p: "params fp = fst build_feature_preprocessor"
    and m: "means fp = map (fst \<circ> fit_scaler) cols"
    and s: "scales fp = map (snd \<circ> fit_scaler) cols"
    by blast
  from col i have ci: "numeric_column (num_features ! i) (rows df) = Inr (cols ! i)" by simp
  from numeric_column_constant[OF ci const] ne
  have "cols ! i \<noteq> []" and "\<forall>x\<in>set (cols ! i). x = c" by auto
  from fit_scaler_constant[OF this]
  have var: "variance (cols ! i) = 0" and fs: "fit_scaler (cols ! i) = (c, 1)" by simp_all
  from m s lc i fs have mi: "means fp ! i = c" and si: "scales fp ! i = 1" by simp_all
  from tr obtain xs ys zs where
    v: "v = xs @ concat ys @ zs"
    and X: "map (scale_cell d) (zip num_features (zip (means fp) (scales fp))) = map Inr xs"
    unfolding transform_Inr_iff p by auto
  from X m s lc have lx: "length xs = 5"
    and xi: "\<forall>i<5. scale_cell d (num_features ! i, means fp ! i, scales fp ! i) = Inr (xs ! i)"
    by (simp_all add: map_eq_map_Inr)
  from xi i have "scale_cell d (num_features ! i, means fp ! i, scales fp ! i) = Inr (xs ! i)"
    by blast
  with val x mi si have "xs ! i = x - c" by simp
  with v lx i have "v ! i = x - c" by (simp add: nth_append)
  with ci var mi si show ?thesis by blast
qed

text \<open>
  Class interaction is 10 in both training rows; a row with 18 interactions gets
  \<open>18 - 10\<close> in the fourth column.
\<close>

theorem transform_constant_column_witness:
  "fit_preprocessor (fst build_feature_preprocessor) ex_train = Inr ex_fp
   \<and> rows ex_train = [ex_row1, ex_row2]
   \<and> ex_row1 (num_features ! 3) = Some (PInt 10)
   \<and> ex_row2 (num_features ! 3) = Some (PInt 10)
   \<and> transform ex_fp ex_student = Inr [2, 0, 0, 8, 15 / 2, 1, 1, 1]
   \<and> ex_student (num_features ! 3) = Some (PInt 18)
   \<and> [2, 0, 0, 8, 15 / 2, 1, 1, 1 :: real] ! 3 = 18 - 10"
proof -
  have c: "\<forall>r\<in>set (rows ex_train). \<exists>val. r (num_features ! 3) = Some val
          \<and> to_float val = Some 10"
    by (simp add: ex_train_def ex_row1_def ex_row2_def num_features_def)
  have v: "ex_student (num_features ! 3) = Some (PInt 18)"
    by (simp add: ex_student_def num_features_def)
  have x: "to_float (PInt 18) = Some 18" by simp
  have r: "rows ex_train = [ex_row1, ex_row2]"
    "ex_row1 (num_features ! 3) = Some (PInt 10)" "ex_row2 (num_features ! 3) = Some (PInt 10)"
    by (simp_all add: ex_train_def ex_row1_def ex_row2_def num_features_def)
  from transform_constant_column [OF ex_fit _ c ex_transform v x] ex_fit r ex_transform v
  show ?thesis by simp
qed

text \<open>
  Homework completion is 0.8 in both training rows, so its variance is zero; a row with
  0.9 is transformed to 0.1 in that column, not to 0.
\<close>

theorem transform_constant_column_counterexample:
  "fit_preprocessor (fst build_feature_preprocessor) ex_train = Inr ex_fp
   \<and> numeric_column ''homework_completion'' (rows ex_train) = Inr [4 / 5, 4 / 5]
   \<and> variance [4 / 5, 4 / 5] = 0
   \<and> transform ex_fp ex_student_homework = Inr [2, 1 / 10, 0, 8, 15 / 2, 1, 1, 1]"
proof -
  have "transform ex_fp ex_student_homework = Inr [2, 1 / 10, 0, 8, 15 / 2, 1, 1, 1]"
    by (simp add: transform_def ex_fp_def ex_student_homework_def ex_student_def Let_def
        num_features_def cat_features_def kept_categories_def)
  moreover have "numeric_column ''homework_completion'' (rows ex_train) = Inr [4 / 5, 4 / 5]"
    by (simp add: ex_train_def ex_numeric_columns)
  moreover have "variance [4 / 5, 4 / 5] = 0"
    by (simp add: variance_def)
  ultimately show ?thesis using ex_fit by blast
qed

section \<open>The clipping loop\<close>

lemma np_clip_id: "\<not> (x < lo \<or> x > hi) \<Longrightarrow> np_clip x lo hi = x"
  by (simp add: np_clip_def)

lemma np_clip_bounds: "lo \<le> hi \<Longrightarrow> lo \<le> np_clip x lo hi \<and> np_clip x lo hi \<le> hi"
  by (simp add: np_clip_def)

lemma no_outliers_clip:
  "count_outliers lo hi xs = 0 \<Longrightarrow> map (\<lambda>x. np_clip x lo hi) xs = xs"
  by (induction xs) (auto simp: count_outliers_def np_clip_def split: if_splits)

lemma outlier_report_other:
  "col \<notin> fst ` set rules \<Longrightarrow> outlier_report rules (df(col \<mapsto> ys)) = outlier_report rules df"
proof -
  assume nin: "col \<notin> fst ` set rules"
  have "\<And>rule. rule \<in> set rules \<Longrightarrow>
      (case rule of (c, lo, hi) \<Rightarrow> case (df(col \<mapsto> ys)) c of None \<Rightarrow> []
          | Some xs \<Rightarrow> if count_outliers lo hi xs > 0 then [(c, count_outliers lo hi xs)] else [])
      = (case rule of (c, lo, hi) \<Rightarrow> case df c of None \<Rightarrow> []
          | Some xs \<Rightarrow> if count_outliers lo hi xs > 0 then [(c, count_outliers lo hi xs)] else [])"
  proof -
    fix rule assume r: "rule \<in> set rules"
    obtain c lo hi where rule: "rule = (c, lo, hi)" by (cases rule) auto
    with r nin have "c \<noteq> col" by force
    with rule show "(case rule of (c, lo, hi) \<Rightarrow> case (df(col \<mapsto> ys)) c of None \<Rightarrow> []
          | Some xs \<Rightarrow> if count_outliers lo hi xs > 0 then [(c, count_outliers lo hi xs)] else [])
      = (case rule of (c, lo, hi) \<Rightarrow> case df c of None \<Rightarrow> []
          | Some xs \<Rightarrow> if count_outliers lo hi xs > 0 then [(c, count_outliers lo hi xs)] else [])"
      by simp
  qed
  then show ?thesis
    unfolding outlier_report_def by (simp cong: map_cong)
qed

lemma clip_loop_result:
  assumes "distinct (map fst rules)" and "\<forall>c\<in>fst ` set rules. c \<in> dom df"
  shows "\<exists>df'. clip_loop rules df printed = Inr (df', printed @ outlier_report rules df)
           \<and> (\<forall>c. c \<notin> fst ` set rules \<longrightarrow> df' c = df c)
           \<and> (\<forall>(c, lo, hi)\<in>set rules. \<exists>xs. df c = Some xs
                  \<and> df' c = Some (map (\<lambda>x. np_clip x lo hi) xs))"
  using assms
proof (induction rules arbitrary: df printed)
  case Nil
  show ?case by (simp add: outlier_report_def)
next
  case (Cons rule rules)
  obtain col lo hi where rule: "rule = (col, lo, hi)" by (cases rule) auto
  from Cons.prems rule obtain xs where xs: "df col = Some xs" by auto
  from Cons.prems rule have d: "distinct (map fst rules)" and nin: "col \<notin> fst ` set rules"
    by auto
  let ?n = "count_outliers lo hi xs"
  show ?case
  proof (cases "?n > 0")
    case True
    let ?df1 = "df(col \<mapsto> map (\<lambda>x. np_clip x lo hi) xs)"
    from Cons.prems have "\<forall>c\<in>fst ` set rules. c \<in> dom ?df1" by auto
    from Cons.IH[OF d this, of "printed @ [(col, ?n)]"] obtain df' where
      r: "clip_loop rules ?df1 (printed @ [(col, ?n)])
            = Inr (df', (printed @ [(col, ?n)]) @ outlier_report rules ?df1)"
      and o: "\<forall>c. c \<notin> fst ` set rules \<longrightarrow> df' c = ?df1 c"
      and c: "\<forall>(c, lo, hi)\<in>set rules. \<exists>xs. ?df1 c = Some xs
                  \<and> df' c = Some (map (\<lambda>x. np_clip x lo hi) xs)"
      by blast
    have rep: "outlier_report (rule # rules) df = (col, ?n) # outlier_report rules df"
      using True xs rule by (simp add: outlier_report_def)
    have 1: "clip_loop (rule # rules) df printed
          = Inr (df', printed @ outlier_report (rule # rules) df)"
      using r True xs rule rep outlier_report_other[OF nin] by simp
    have 2: "\<forall>c. c \<notin> fst ` set (rule # rules) \<longrightarrow> df' c = df c"
      using o rule by auto
    have 3: "\<forall>(c, lo, hi)\<in>set (rule # rules). \<exists>xs. df c = Some xs
                  \<and> df' c = Some (map (\<lambda>x. np_clip x lo hi) xs)"
    proof -
      have "df' col = Some (map (\<lambda>x. np_clip x lo hi) xs)" using o nin by simp
      moreover have "\<forall>(c, lo, hi)\<in>set rules. \<exists>xs. df c = Some xs
                  \<and> df' c = Some (map (\<lambda>x. np_clip x lo hi) xs)"
      proof (intro ballI)
        fix r assume r: "r \<in> set rules"
        obtain c' lo' hi' where r': "r = (c', lo', hi')" by (cases r) auto
        with r nin have "c' \<noteq> col" by force
        moreover from c r r' have "\<exists>xs. ?df1 c' = Some xs
                  \<and> df' c' = Some (map (\<lambda>x. np_clip x lo' hi') xs)" by blast
        ultimately show "case r of (c, lo, hi) \<Rightarrow> \<exists>xs. df c = Some xs
                  \<and> df' c = Some (map (\<lambda>x. np_clip x lo hi) xs)"
          using r' by simp
      qed
      ultimately show ?thesis using rule xs by simp
    qed
    from 1 2 3 show ?thesis by blast
  next
    case False
    from Cons.prems have "\<forall>c\<in>fst ` set rules. c \<in> dom df" by auto
    from Cons.IH[OF d this, of printed] obtain df' where
      r: "clip_loop rules df printed = Inr (df', printed @ outlier_report rules df)"
      and o: "\<forall>c. c \<notin> fst ` set rules \<longrightarrow> df' c = df c"
      and c: "\<forall>(c, lo, hi)\<in>set rules. \<exists>xs. df c = Some xs
                  \<and> df' c = Some (map (\<lambda>x. np_clip x lo hi) xs)"
      by blast
    have rep: "outlier_report (rule # rules) df = outlier_report rules df"
      using False xs rule by (simp add: outlier_report_def)
    have 1: "clip_loop (rule # rules) df printed
          = Inr (df', printed @ outlier_report (rule # rules) df)"
      using r False xs rule rep by simp
    have 2: "\<forall>c. c \<notin> fst ` set (rule # rules) \<longrightarrow> df' c = df c"
      using o rule by auto
    have 3: "\<forall>(c, lo, hi)\<in>set (rule # rules). \<exists>xs. df c = Some xs
                  \<and> df' c = Some (map (\<lambda>x. np_clip x lo hi) xs)"
    proof -
      from False have "map (\<lambda>x. np_clip x lo hi) xs = xs" by (simp add: no_outliers_clip)
      with o nin xs have "df' col = Some (map (\<lambda>x. np_clip x lo hi) xs)" by simp
      with c rule xs show ?thesis by simp
    qed
    from 1 2 3 show ?thesis by blast
  qed
qed

lemma clip_rules_facts:
  "distinct (map fst clip_rules)" "\<forall>(c, lo, hi)\<in>set clip_rules. lo \<le> hi"
  by (simp_all add: clip_rules_def)

lemma clip_rules_columns:
  "map fst clip_rules = [''gpa'', ''attendance'', ''homework_completion'', ''lib_borrow'',
                         ''class_interaction'', ''exam_score'']"
  by (simp add: clip_rules_def)

section \<open>Prediction on loaded artifacts, clamping and rounding\<close>

lemma check_numeric_None:
  "(\<forall>f\<in>set fs. \<exists>val. d f = Some val \<and> is_numeric_dtype val) \<Longrightarrow> check_numeric d fs = None"
  by (induction fs) auto

lemma predict_loaded_valid:
  assumes "set required_features \<subseteq> dom d"
    and "\<forall>f\<in>set numeric_features. \<exists>val. d f = Some val \<and> is_numeric_dtype val"
  shows "predict_loaded (Model lr) (Preprocessor fp) d =
     (case transform fp d of
        Inl e \<Rightarrow> Inl e
      | Inr x \<Rightarrow> (case predict lr x of
                    Inl e \<Rightarrow> Inl e
                  | Inr raw \<Rightarrow> Inr (round2 (np_clip raw 1 4))))"
proof -
  from assms(1) have "filter (\<lambda>f. d f = None) required_features = []"
    by (auto simp: filter_empty_conv)
  with check_numeric_None[OF assms(2)] show ?thesis
    by (simp add: predict_loaded_def split: sum.splits)
qed

lemma predict_gpa_stored:
  assumes "artifacts_stored fs p fp lr"
  shows "predict_gpa fs (PyDict d) (PyStr p) = predict_loaded (Model lr) (Preprocessor fp) d"
  using assms by (simp add: artifacts_stored_def predict_gpa_loaded)

lemma ex_stored: "artifacts_stored ex_fs ''/proj'' ex_fp ex_lr"
  by (simp add: artifacts_stored_def ex_fs_def ex_paths)

lemma rint_floor: "of_int \<lfloor>y\<rfloor> \<le> (of_int (rint y) :: real) \<and> rint y \<le> \<lfloor>y\<rfloor> + 1"
  by (simp add: rint_def Let_def)

lemma rint_near: "\<bar>of_int (rint y) - y\<bar> \<le> 1 / 2"
proof -
  have "of_int \<lfloor>y\<rfloor> \<le> y" "y < of_int \<lfloor>y\<rfloor> + 1" by linarith+
  then show ?thesis by (auto simp: rint_def Let_def)
qed

lemma rint_bounds:
  assumes "100 \<le> y" and "y \<le> 400"
  shows "100 \<le> rint y \<and> rint y \<le> 400"
proof -
  from assms(1) have f: "100 \<le> \<lfloor>y\<rfloor>" by (simp add: le_floor_iff)
  have lo: "\<lfloor>y\<rfloor> \<le> rint y" by (simp add: rint_def Let_def)
  show ?thesis
  proof (cases "\<lfloor>y\<rfloor> = 400")
    case True
    with assms(2) have "y - of_int \<lfloor>y\<rfloor> \<le> 0" by simp
    then have "rint y = \<lfloor>y\<rfloor>" by (simp add: rint_def Let_def)
    with True show ?thesis by simp
  next
    case False
    from assms(2) have "\<lfloor>y\<rfloor> \<le> \<lfloor>400::real\<rfloor>" by (rule floor_mono)
    then have "\<lfloor>y\<rfloor> \<le> 400" by simp
    with False have "\<lfloor>y\<rfloor> + 1 \<le> 400" by linarith
    moreover have "rint y \<le> \<lfloor>y\<rfloor> + 1" by (simp add: rint_def Let_def)
    ultimately show ?thesis using f lo by linarith
  qed
qed

lemma round2_range:
  assumes "1 \<le> x" and "x \<le> 4"
  shows "1 \<le> round2 x \<and> round2 x \<le> 4"
proof -
  from assms have "100 \<le> x * 100" "x * 100 \<le> 400" by simp_all
  from rint_bounds[OF this] have "(100::real) \<le> of_int (rint (x * 100))"
    and "of_int (rint (x * 100)) \<le> (400::real)"
    by (simp_all add: of_int_le_iff[symmetric] del: of_int_le_iff)
  then show ?thesis by (simp add: round2_def)
qed

lemma round2_two_decimals:
  "(\<exists>n::int. round2 x = of_int n / 100) \<and> \<bar>round2 x - x\<bar> \<le> 1 / 200"
proof -
  have "\<bar>of_int (rint (x * 100)) - x * 100\<bar> \<le> 1 / 2" by (rule rint_near)
  then have "\<bar>round2 x - x\<bar> \<le> 1 / 200"
    by (simp add: round2_def abs_le_iff field_simps)
  then show ?thesis by (auto simp: round2_def)
qed

lemma clipped_round2_range: "1 \<le> round2 (np_clip raw 1 4) \<and> round2 (np_clip raw 1 4) \<le> 4"
  by (rule round2_range) (simp_all add: np_clip_def)

lemma ex_predictions:
  "predict_gpa ex_fs (PyDict ex_student) (PyStr ''/proj'') = Inr (313 / 100)"
  "predict_gpa ex_fs (PyDict ex_student_out_of_range) (PyStr ''/proj'') = Inr (363 / 100)"
  "predict_gpa ex_fs (PyDict (ex_student(''attendance'' \<mapsto> PInt 32))) (PyStr ''/proj'')
     = Inr (323 / 100)"
  by (simp_all add: predict_gpa_stored[OF ex_stored] predict_loaded_def
      required_features_def numeric_features_def ex_student_def ex_student_out_of_range_def
      transform_def ex_fp_def Let_def num_features_def cat_features_def kept_categories_def
      predict_def ex_lr_def np_clip_def round2_def rint_def)

lemma ex_clip_outliers:
  "clip_outliers ex_numeric_frame
     = Inr (ex_numeric_frame(''gpa'' \<mapsto> [5 / 2, 4, 3], ''attendance'' \<mapsto> [20, 25, 32]),
            [(''gpa'', 1), (''attendance'', 2)])"
  by (simp add: clip_outliers_def clip_rules_def ex_numeric_frame_def count_outliers_def
      np_clip_def)

lemma ex_student_valid:
  "set required_features \<subseteq> dom ex_student_out_of_range"
  "\<forall>f\<in>set numeric_features. \<exists>val. ex_student_out_of_range f = Some val \<and> is_numeric_dtype val"
  by (simp_all add: required_features_def numeric_features_def ex_student_out_of_range_def
      ex_student_def)

section \<open>Clipping in the cleaning step, none in the prediction\<close>

text \<open>
  Claim C7. The cleaning step of the training data replaces every value of \<open>gpa\<close>,
  \<open>attendance\<close>, \<open>homework_completion\<close>, \<open>lib_borrow\<close>, \<open>class_interaction\<close> and
  \<open>exam_score\<close> by its clipped value, so that afterwards every value lies in the range of
  its rule; it does not fail, leaves the other columns alone, and prints for each column
  with values out of range the number of such values. \<open>predict_gpa\<close> neither clips nor
  checks ranges: a row with its eight features and numeric-typed numeric features is
  handed as it is to the stored pipeline and regression.
\<close>

theorem cleaning_clips_prediction_does_not:
  "((\<forall>c\<in>set (map fst clip_rules). c \<in> dom df) \<longrightarrow>
      (\<exists>df'. clip_outliers df = Inr (df', outlier_report clip_rules df)
         \<and> (\<forall>(c, lo, hi)\<in>set clip_rules. \<exists>xs. df c = Some xs
                \<and> df' c = Some (map (\<lambda>x. np_clip x lo hi) xs)
                \<and> (\<forall>y\<in>set (map (\<lambda>x. np_clip x lo hi) xs). lo \<le> y \<and> y \<le> hi))
         \<and> (\<forall>c. c \<notin> set (map fst clip_rules) \<longrightarrow> df' c = df c)))
   \<and> map fst clip_rules = [''gpa'', ''attendance'', ''homework_completion'', ''lib_borrow'',
                            ''class_interaction'', ''exam_score'']
   \<and> (artifacts_stored fs p fp lr \<and> set required_features \<subseteq> dom d
        \<and> (\<forall>f\<in>set numeric_features. \<exists>val. d f = Some val \<and> is_numeric_dtype val) \<longrightarrow>
      predict_gpa fs (PyDict d) (PyStr p) =
        (case transform fp d of
           Inl e \<Rightarrow> Inl e
         | Inr x \<Rightarrow> (case predict lr x of
                       Inl e \<Rightarrow> Inl e
                     | Inr raw \<Rightarrow> Inr (round2 (np_clip raw 1 4)))))"
proof (intro conjI impI)
  assume cols: "\<forall>c\<in>set (map fst clip_rules). c \<in> dom df"
  then have "\<forall>c\<in>fst ` set clip_rules. c \<in> dom df" by simp
  from clip_loop_result[OF clip_rules_facts(1) this, of "[]"] obtain df' where
    r: "clip_outliers df = Inr (df', outlier_report clip_rules df)"
    and o: "\<forall>c. c \<notin> fst ` set clip_rules \<longrightarrow> df' c = df c"
    and c: "\<forall>(c, lo, hi)\<in>set clip_rules. \<exists>xs. df c = Some xs
                  \<and> df' c = Some (map (\<lambda>x. np_clip x lo hi) xs)"
    by (auto simp: clip_outliers_def)
  have "\<forall>(c, lo, hi)\<in>set clip_rules. \<exists>xs. df c = Some xs
                \<and> df' c = Some (map (\<lambda>x. np_clip x lo hi) xs)
                \<and> (\<forall>y\<in>set (map (\<lambda>x. np_clip x lo hi) xs). lo \<le> y \<and> y \<le> hi)"
  proof (intro ballI)
    fix rule assume rule: "rule \<in> set clip_rules"
    obtain col lo hi where t: "rule = (col, lo, hi)" by (cases rule) auto
    with rule clip_rules_facts(2) have "lo \<le> hi" by blast
    then have "\<forall>xs. \<forall>y\<in>set (map (\<lambda>x. np_clip x lo hi) xs). lo \<le> y \<and> y \<le> hi"
      by (auto simp: np_clip_bounds)
    moreover from c rule t have "\<exists>xs. df col = Some xs
        \<and> df' col = Some (map (\<lambda>x. np_clip x lo hi) xs)" by blast
    ultimately show "case rule of (c, lo, hi) \<Rightarrow> \<exists>xs. df c = Some xs
                \<and> df' c = Some (map (\<lambda>x. np_clip x lo hi) xs)
                \<and> (\<forall>y\<in>set (map (\<lambda>x. np_clip x lo hi) xs). lo \<le> y \<and> y \<le> hi)"
      using t by simp
  qed
  with r o show "\<exists>df'. clip_outliers df = Inr (df', outlier_report clip_rules df)
         \<and> (\<forall>(c, lo, hi)\<in>set clip_rules. \<exists>xs. df c = Some xs
                \<and> df' c = Some (map (\<lambda>x. np_clip x lo hi) xs)
                \<and> (\<forall>y\<in>set (map (\<lambda>x. np_clip x lo hi) xs). lo \<le> y \<and> y \<le> hi))
         \<and> (\<forall>c. c \<notin> set (map fst clip_rules) \<longrightarrow> df' c = df c)"
    by auto
next
  show "map fst clip_rules = [''gpa'', ''attendance'', ''homework_completion'', ''lib_borrow'',
                            ''class_interaction'', ''exam_score'']"
    by (rule clip_rules_columns)
next
  assume a: "artifacts_stored fs p fp lr \<and> set required_features \<subseteq> dom d
        \<and> (\<forall>f\<in>set numeric_features. \<exists>val. d f = Some val \<and> is_numeric_dtype val)"
  then have s: "artifacts_stored fs p fp lr" and k: "set required_features \<subseteq> dom d"
    and n: "\<forall>f\<in>set numeric_features. \<exists>val. d f = Some val \<and> is_numeric_dtype val"
    by blast+
  show "predict_gpa fs (PyDict d) (PyStr p) =
        (case transform fp d of
           Inl e \<Rightarrow> Inl e
         | Inr x \<Rightarrow> (case predict lr x of
                       Inl e \<Rightarrow> Inl e
                     | Inr raw \<Rightarrow> Inr (round2 (np_clip raw 1 4))))"
    by (simp only: predict_gpa_stored[OF s] predict_loaded_valid[OF k n])
qed

text \<open>
  One grade and two attendances of the example frame are clipped and counted. The
  prediction for an attendance of 40 is 3.63; had the row been clipped to 32 it would
  be 3.23.
\<close>

theorem cleaning_clips_prediction_does_not_witness:
  "clip_outliers ex_numeric_frame
     = Inr (ex_numeric_frame(''gpa'' \<mapsto> [5 / 2, 4, 3], ''attendance'' \<mapsto> [20, 25, 32]),
            [(''gpa'', 1), (''attendance'', 2)])
   \<and> outlier_report clip_rules ex_numeric_frame = [(''gpa'', 1), (''attendance'', 2)]
   \<and> artifacts_stored ex_fs ''/proj'' ex_fp ex_lr
   \<and> ex_student_out_of_range ''attendance'' = Some (PInt 40)
   \<and> predict_gpa ex_fs (PyDict ex_student_out_of_range) (PyStr ''/proj'') = Inr (363 / 100)
   \<and> predict_gpa ex_fs (PyDict (ex_student(''attendance'' \<mapsto> PInt 32))) (PyStr ''/proj'')
       = Inr (323 / 100)"
proof -
  have cols: "\<forall>c\<in>set (map fst clip_rules). c \<in> dom ex_numeric_frame"
    by (simp add: clip_rules_def ex_numeric_frame_def)
  from cleaning_clips_prediction_does_not
         [of ex_numeric_frame ex_fs "''/proj''" ex_fp ex_lr ex_student_out_of_range] cols
  have "\<exists>df'. clip_outliers ex_numeric_frame
           = Inr (df', outlier_report clip_rules ex_numeric_frame)"
    by blast
  then have "outlier_report clip_rules ex_numeric_frame = [(''gpa'', 1), (''attendance'', 2)]"
    by (simp add: ex_clip_outliers)
  moreover have "ex_student_out_of_range ''attendance'' = Some (PInt 40)"
    by (simp add: ex_student_out_of_range_def)
  ultimately show ?thesis
    using ex_clip_outliers ex_stored ex_predictions by blast
qed

section \<open>Changing the value of a numeric feature\<close>

lemma sequence_Cons_Inr: "(sequence (Inr x # rs) = Inl e) = (sequence rs = Inl e)"
  by (cases "sequence rs") auto

lemma sequence_same_failure:
  assumes "list_all2 (\<lambda>r r'. \<forall>e. (r = Inl e) = (r' = Inl e)) rs rs'"
  shows "(sequence rs = Inl e) = (sequence rs' = Inl e)"
  using assms
proof (induction rs rs' rule: list_all2_induct)
  case Nil
  show ?case by simp
next
  case (Cons r rs r' rs')
  show ?case
  proof (cases r)
    case (Inl a)
    with Cons.hyps(1) have "r' = Inl a" by blast
    with Inl show ?thesis by simp
  next
    case (Inr x)
    with Cons.hyps(1) obtain x' where r': "r' = Inr x'" by (cases r') auto
    with Inr Cons.IH show ?thesis by (simp only: sequence_Cons_Inr)
  qed
qed

lemma sequence_map_same_failure:
  assumes "\<And>c e. c \<in> set cs \<Longrightarrow> (g c = Inl e) = (h c = Inl e)"
  shows "(sequence (map g cs) = Inl e) = (sequence (map h cs) = Inl e)"
proof (rule sequence_same_failure)
  show "list_all2 (\<lambda>r r'. \<forall>e. (r = Inl e) = (r' = Inl e)) (map g cs) (map h cs)"
    using assms by (simp add: list_all2_map1 list_all2_map2 list_all2_same)
qed

lemma sequence_map_length:
  "sequence (map g cs) = Inr xs \<Longrightarrow> length xs = length cs"
  by (drule sequence_length) simp

lemma numeric_cell_upd_same_failure:
  assumes "to_float v = Some a" and "to_float v' = Some b"
  shows "(numeric_cell g (d(f \<mapsto> v)) = Inl e) = (numeric_cell g (d(f \<mapsto> v')) = Inl e)"
  using assms by (cases "g = f") simp_all

lemma scale_cell_upd_same_failure:
  assumes "to_float v = Some a" and "to_float v' = Some b"
  shows "(scale_cell (d(f \<mapsto> v)) c = Inl e) = (scale_cell (d(f \<mapsto> v')) c = Inl e)"
proof -
  obtain g m s where c: "c = (g, m, s)" by (cases c) auto
  show ?thesis using assms unfolding c by (cases "g = f") simp_all
qed

lemma encode_cell_upd_other:
  "fst c \<noteq> f \<Longrightarrow> encode_cell p (d(f \<mapsto> v)) c = encode_cell p (d(f \<mapsto> v')) c"
  by (cases c) simp

lemma numeric_not_categorical:
  "f \<in> set numeric_features \<Longrightarrow> g \<in> set cat_features \<Longrightarrow> g \<noteq> f"
  by (auto simp: numeric_features_def cat_features_def)

lemma is_numeric_to_float: "is_numeric_dtype v \<Longrightarrow> \<exists>x. to_float v = Some x"
  by (cases v) simp_all

lemma pipeline_same_failure:
  fixes A A' C C' :: "'e + 'a list" and B :: "'e + 'a list list"
  assumes A: "\<And>e. (A = Inl e) = (A' = Inl e)"
    and lA: "\<And>xs xs'. A = Inr xs \<Longrightarrow> A' = Inr xs' \<Longrightarrow> length xs = length xs'"
    and C: "\<And>e. (C = Inl e) = (C' = Inl e)"
    and lC: "\<And>zs zs'. C = Inr zs \<Longrightarrow> C' = Inr zs' \<Longrightarrow> length zs = length zs'"
  shows "(((case A of Inl e \<Rightarrow> Inl e
            | Inr xs \<Rightarrow> (case B of Inl e \<Rightarrow> Inl e
               | Inr ys \<Rightarrow> (case C of Inl e \<Rightarrow> Inl e
                  | Inr zs \<Rightarrow> Inr (xs @ concat ys @ zs)))) = Inl e)
        = ((case A' of Inl e \<Rightarrow> Inl e
            | Inr xs \<Rightarrow> (case B of Inl e \<Rightarrow> Inl e
               | Inr ys \<Rightarrow> (case C' of Inl e \<Rightarrow> Inl e
                  | Inr zs \<Rightarrow> Inr (xs @ concat ys @ zs)))) = Inl e))
     \<and> (\<forall>x x'. (case A of Inl e \<Rightarrow> Inl e
            | Inr xs \<Rightarrow> (case B of Inl e \<Rightarrow> Inl e
               | Inr ys \<Rightarrow> (case C of Inl e \<Rightarrow> Inl e
                  | Inr zs \<Rightarrow> Inr (xs @ concat ys @ zs)))) = Inr x
         \<longrightarrow> (case A' of Inl e \<Rightarrow> Inl e
            | Inr xs \<Rightarrow> (case B of Inl e \<Rightarrow> Inl e
               | Inr ys \<Rightarrow> (case C' of Inl e \<Rightarrow> Inl e
                  | Inr zs \<Rightarrow> Inr (xs @ concat ys @ zs)))) = Inr x'
         \<longrightarrow> length x = length x')"
proof (cases A)
  case a: (Inl e1)
  with A[of e1] have a': "A' = Inl e1" by simp
  show ?thesis unfolding a a' by simp
next
  case a: (Inr xs)
  have "\<exists>xs'. A' = Inr xs'"
  proof (cases A')
    case (Inl e2)
    with A[of e2] a show ?thesis by simp
  qed simp
  then obtain xs' where a': "A' = Inr xs'" by blast
  from lA[OF a a'] have lx: "length xs = length xs'" .
  show ?thesis
  proof (cases B)
    case b: (Inl e1)
    show ?thesis unfolding a a' b by simp
  next
    case b: (Inr ys)
    show ?thesis
    proof (cases C)
      case c: (Inl e1)
      with C[of e1] have c': "C' = Inl e1" by simp
      show ?thesis unfolding a a' b c c' by simp
    next
      case c: (Inr zs)
      have "\<exists>zs'. C' = Inr zs'"
      proof (cases C')
        case (Inl e2)
        with C[of e2] c show ?thesis by simp
      qed simp
      then obtain zs' where c': "C' = Inr zs'" by blast
      from lC[OF c c'] have lz: "length zs = length zs'" .
      show ?thesis unfolding a a' b c c' using lx lz by simp
    qed
  qed
qed

lemma transform_upd_same_failure:
  assumes p: "params fp = fst build_feature_preprocessor"
    and f: "f \<in> set numeric_features"
    and v: "to_float v = Some a" and v': "to_float v' = Some b"
  shows "((transform fp (d(f \<mapsto> v)) = Inl e) = (transform fp (d(f \<mapsto> v')) = Inl e))
       \<and> (\<forall>x x'. transform fp (d(f \<mapsto> v)) = Inr x \<longrightarrow> transform fp (d(f \<mapsto> v')) = Inr x'
             \<longrightarrow> length x = length x')"
proof -
  let ?d = "d(f \<mapsto> v)" and ?d' = "d(f \<mapsto> v')"
  let ?cols = "num_features @ cat_features @ remainder_cols fp"
  let ?zn = "zip num_features (zip (means fp) (scales fp))"
  let ?zc = "zip cat_features (categories fp)"
  let ?q = "fst build_feature_preprocessor"
  let ?A = "sequence (map (scale_cell ?d) ?zn)" and ?A' = "sequence (map (scale_cell ?d') ?zn)"
  let ?B = "sequence (map (encode_cell ?q ?d) ?zc)"
  let ?B' = "sequence (map (encode_cell ?q ?d') ?zc)"
  let ?C = "sequence (map (\<lambda>g. numeric_cell g ?d) (remainder_cols fp))"
  let ?C' = "sequence (map (\<lambda>g. numeric_cell g ?d') (remainder_cols fp))"
  have miss: "filter (\<lambda>c. ?d' c = None) ?cols = filter (\<lambda>c. ?d c = None) ?cols"
    by (rule filter_cong) auto
  have A: "\<And>e. (?A = Inl e) = (?A' = Inl e)"
    by (rule sequence_map_same_failure) (rule scale_cell_upd_same_failure[OF v v'])
  have C: "\<And>e. (?C = Inl e) = (?C' = Inl e)"
    by (rule sequence_map_same_failure) (rule numeric_cell_upd_same_failure[OF v v'])
  have lA: "\<And>xs xs'. ?A = Inr xs \<Longrightarrow> ?A' = Inr xs' \<Longrightarrow> length xs = length xs'"
    by (simp add: sequence_map_length)
  have lC: "\<And>zs zs'. ?C = Inr zs \<Longrightarrow> ?C' = Inr zs' \<Longrightarrow> length zs = length zs'"
    by (simp add: sequence_map_length)
  have "map (encode_cell ?q ?d') ?zc = map (encode_cell ?q ?d) ?zc"
  proof (rule map_cong[OF refl])
    fix c assume "c \<in> set ?zc"
    moreover obtain g cs where "c = (g, cs)" by (cases c) auto
    ultimately have "fst c \<in> set cat_features" by (auto dest: set_zip_leftD)
    with f have "fst c \<noteq> f" by (rule numeric_not_categorical)
    then show "encode_cell ?q ?d' c = encode_cell ?q ?d c" by (rule encode_cell_upd_other)
  qed
  then have B: "?B' = ?B" by (rule arg_cong)
  have t: "\<And>r. transform fp r =
      (if filter (\<lambda>c. r c = None) ?cols \<noteq> [] then Inl (ColumnsMissing (filter (\<lambda>c. r c = None) ?cols))
       else (case sequence (map (scale_cell r) ?zn) of Inl e \<Rightarrow> Inl e
         | Inr xs \<Rightarrow> (case sequence (map (encode_cell ?q r) ?zc) of Inl e \<Rightarrow> Inl e
           | Inr ys \<Rightarrow> (case sequence (map (\<lambda>g. numeric_cell g r) (remainder_cols fp)) of
                Inl e \<Rightarrow> Inl e | Inr zs \<Rightarrow> Inr (xs @ concat ys @ zs)))))"
    by (unfold transform_def Let_def p build_params) (rule refl)
  show ?thesis
  proof (cases "filter (\<lambda>c. ?d c = None) ?cols \<noteq> []")
    case True
    then show ?thesis unfolding t[of ?d] t[of ?d'] miss by simp
  next
    case False
    then show ?thesis unfolding t[of ?d] t[of ?d'] miss B
      using pipeline_same_failure[of ?A ?A' ?C ?C' ?B e, OF A lA C lC] by simp
  qed
qed

lemma check_numeric_upd:
  "is_numeric_dtype v \<Longrightarrow> is_numeric_dtype v' \<Longrightarrow>
   check_numeric (d(f \<mapsto> v)) fs = check_numeric (d(f \<mapsto> v')) fs"
  by (induction fs) (auto split: option.splits)

lemma predict_same_failure:
  "length x = length x' \<Longrightarrow> (predict lr x = Inl e) = (predict lr x' = Inl e)"
  by (auto simp: predict_def)

lemma propagate_Inl_iff:
  "((case r of Inl e \<Rightarrow> Inl e | Inr y \<Rightarrow> Inr (g y)) = Inl e) = (r = Inl e)"
  by (cases r) simp_all

text \<open>
  Claim C8, as the code has it. \<open>predict_gpa\<close> has no range check, so a row is never
  rejected for a numeric feature value outside its declared range: with the stored
  pipeline built by \<open>build_feature_preprocessor\<close>, replacing the value of a numeric feature
  by any other numeric-typed value changes neither whether \<open>predict_gpa\<close> fails nor the
  error it fails with. A row with an out-of-range value fails only if the same row with
  an in-range value fails, and then with the same error.
\<close>

theorem predict_gpa_ignores_numeric_range:
  assumes st: "artifacts_stored fs p fp lr"
    and p: "params fp = fst build_feature_preprocessor"
    and f: "f \<in> set numeric_features"
    and v: "is_numeric_dtype v" and v': "is_numeric_dtype v'"
  shows "(predict_gpa fs (PyDict (d(f \<mapsto> v))) (PyStr p) = Inl e)
       = (predict_gpa fs (PyDict (d(f \<mapsto> v'))) (PyStr p) = Inl e)"
proof -
  let ?d = "d(f \<mapsto> v)" and ?d' = "d(f \<mapsto> v')"
  from v v' obtain a b where a: "to_float v = Some a" and b: "to_float v' = Some b"
    using is_numeric_to_float by blast
  have miss: "filter (\<lambda>g. ?d' g = None) required_features
      = filter (\<lambda>g. ?d g = None) required_features"
    by (rule filter_cong) auto
  have cn: "check_numeric ?d' numeric_features = check_numeric ?d numeric_features"
    by (rule check_numeric_upd[OF v' v])
  from transform_upd_same_failure[OF p f a b, of d]
  have T: "\<And>e. (transform fp ?d = Inl e) = (transform fp ?d' = Inl e)"
    and lT: "\<And>x x'. transform fp ?d = Inr x \<Longrightarrow> transform fp ?d' = Inr x'
                \<Longrightarrow> length x = length x'"
    by blast+
  have pl: "\<And>r. predict_loaded (Model lr) (Preprocessor fp) r =
      (if filter (\<lambda>g. r g = None) required_features \<noteq> []
       then Inl (MissingFeatures (filter (\<lambda>g. r g = None) required_features))
       else (case check_numeric r numeric_features of
               Some e \<Rightarrow> Inl e
             | None \<Rightarrow> (case transform fp r of
                           Inl e \<Rightarrow> Inl e
                         | Inr x \<Rightarrow> (case predict lr x of
                                       Inl e \<Rightarrow> Inl e
                                     | Inr raw \<Rightarrow> Inr (round2 (np_clip raw 1 4))))))"
    by (simp add: predict_loaded_def Let_def split: option.splits sum.splits)
  have tail: "((case transform fp ?d of
                  Inl e \<Rightarrow> Inl e
                | Inr x \<Rightarrow> (case predict lr x of
                              Inl e \<Rightarrow> Inl e
                            | Inr raw \<Rightarrow> Inr (round2 (np_clip raw 1 4)))) = Inl e)
           = ((case transform fp ?d' of
                  Inl e \<Rightarrow> Inl e
                | Inr x \<Rightarrow> (case predict lr x of
                              Inl e \<Rightarrow> Inl e
                            | Inr raw \<Rightarrow> Inr (round2 (np_clip raw 1 4)))) = Inl e)"
  proof (cases "transform fp ?d")
    case t: (Inl e1)
    with T[of e1] have t': "transform fp ?d' = Inl e1" by simp
    show ?thesis unfolding t t' by simp
  next
    case t: (Inr x)
    have "\<exists>x'. transform fp ?d' = Inr x'"
    proof (cases "transform fp ?d'")
      case (Inl e2)
      with T[of e2] t show ?thesis by simp
    qed simp
    then obtain x' where t': "transform fp ?d' = Inr x'" by blast
    from lT[OF t t'] have "length x = length x'" .
    then have "(predict lr x = Inl e) = (predict lr x' = Inl e)"
      by (rule predict_same_failure)
    then show ?thesis unfolding t t' by (simp add: propagate_Inl_iff)
  qed
  have "(predict_loaded (Model lr) (Preprocessor fp) ?d = Inl e)
      = (predict_loaded (Model lr) (Preprocessor fp) ?d' = Inl e)"
    unfolding pl[of ?d] pl[of ?d'] miss cn using tail
    by (simp split: option.splits)
  then show ?thesis by (simp only: predict_gpa_stored[OF st])
qed

text \<open>
  The example row is answered with 3.23 for an attendance of 32; the theorem excludes
  the type error for an attendance of 40.
\<close>

theorem predict_gpa_ignores_numeric_range_witness:
  "artifacts_stored ex_fs ''/proj'' ex_fp ex_lr
   \<and> params ex_fp = fst build_feature_preprocessor
   \<and> ''attendance'' \<in> set numeric_features
   \<and> is_numeric_dtype (PInt 32) \<and> is_numeric_dtype (PInt 40)
   \<and> predict_gpa ex_fs (PyDict (ex_student(''attendance'' \<mapsto> PInt 32))) (PyStr ''/proj'')
       = Inr (323 / 100)
   \<and> predict_gpa ex_fs (PyDict (ex_student(''attendance'' \<mapsto> PInt 40))) (PyStr ''/proj'')
       \<noteq> Inl (NotNumeric ''attendance'')"
proof -
  have p: "params ex_fp = fst build_feature_preprocessor" by (simp add: ex_fp_def)
  have f: "''attendance'' \<in> set numeric_features" by (simp add: numeric_features_def)
  have v: "is_numeric_dtype (PInt 32)" "is_numeric_dtype (PInt 40)" by simp_all
  from predict_gpa_ignores_numeric_range
         [OF ex_stored p f v, of ex_student "NotNumeric ''attendance''"] ex_predictions(3)
  have "predict_gpa ex_fs (PyDict (ex_student(''attendance'' \<mapsto> PInt 40))) (PyStr ''/proj'')
       \<noteq> Inl (NotNumeric ''attendance'')" by simp
  with ex_stored p f v ex_predictions(3) show ?thesis by blast
qed

text \<open>An attendance of 40, outside 20-32, is accepted and answered with 3.63.\<close>

theorem predict_gpa_out_of_range_counterexample:
  "ex_student_out_of_range ''attendance'' = Some (PInt 40)
   \<and> predict_gpa ex_fs (PyDict ex_student_out_of_range) (PyStr ''/proj'') = Inr (363 / 100)"
  using ex_predictions(2) by (simp add: ex_student_out_of_range_def)

section \<open>The range of the prediction\<close>

lemma transform_fitted_length:
  assumes fit: "fit_preprocessor (fst build_feature_preprocessor) df = Inr fp"
    and norem: "remainder_cols fp = []"
    and tr: "transform fp d = Inr v"
  shows "length v = 5 + (\<Sum>f\<leftarrow>cat_features. card (observed df f) - 1)"
proof -
  from fitted_structure[OF fit] obtain cols cats where
    lc: "length cols = 5" and lk: "length cats = 3"
    and obs: "\<forall>j<3. set (cats ! j) = observed df (cat_features ! j) \<and> distinct (cats ! j)"
    and p: "params fp = fst build_feature_preprocessor"
    and m: "means fp = map (fst \<circ> fit_scaler) cols"
    and s: "scales fp = map (snd \<circ> fit_scaler) cols"
    and c: "categories fp = cats"
    by blast
  from tr obtain xs ys zs where
    v: "v = xs @ concat ys @ zs"
    and X: "map (scale_cell d) (zip num_features (zip (means fp) (scales fp))) = map Inr xs"
    and Y: "map (encode_cell (fst build_feature_preprocessor) d) (zip cat_features cats)
              = map Inr ys"
    and Z: "map (\<lambda>f. numeric_cell f d) (remainder_cols fp) = map Inr zs"
    unfolding transform_Inr_iff p c by auto
  from Z norem have zs: "zs = []" by simp
  from X m s lc have lx: "length xs = 5" by (simp add: map_eq_map_Inr)
  from Y lk have ly: "length ys = 3"
    and yj: "\<forall>j<3. encode_cell (fst build_feature_preprocessor) d (cat_features ! j, cats ! j)
                = Inr (ys ! j)"
    by (simp_all add: map_eq_map_Inr)
  have len_y: "\<forall>j<3. length (ys ! j) = card (observed df (cat_features ! j)) - 1"
  proof (intro allI impI)
    fix j :: nat assume j: "j < 3"
    with yj have "encode_cell (fst build_feature_preprocessor) d (cat_features ! j, cats ! j)
                = Inr (ys ! j)" by simp
    from encode_cell_Inr_build[OF this]
    have "length (ys ! j) = length (cats ! j) - 1" by auto
    moreover from obs j have "card (observed df (cat_features ! j)) = length (cats ! j)"
      using distinct_card[of "cats ! j"] by simp
    ultimately show "length (ys ! j) = card (observed df (cat_features ! j)) - 1" by simp
  qed
  have "length (concat ys) = length (ys ! 0) + length (ys ! 1) + length (ys ! 2)"
    by (subst list3[OF ly]) simp
  also have "\<dots> = (\<Sum>f\<leftarrow>cat_features. card (observed df f) - 1)"
    using len_y by (simp add: cat_features_def)
  finally show ?thesis using v zs lx by simp
qed

lemma transform_fitted_total:
  assumes fit: "fit_preprocessor (fst build_feature_preprocessor) df = Inr fp"
    and norem: "remainder_cols fp = []"
    and num: "\<forall>f\<in>set num_features. \<exists>val x. d f = Some val \<and> to_float val = Some x"
    and seen: "\<forall>f\<in>set cat_features. \<exists>val. d f = Some val \<and> cat_key val \<in> observed df f"
  shows "\<exists>v. transform fp d = Inr v"
proof -
  from fitted_structure[OF fit] obtain cats where
    lk: "length cats = 3"
    and obs: "\<forall>j<3. set (cats ! j) = observed df (cat_features ! j) \<and> distinct (cats ! j)"
    and p: "params fp = fst build_feature_preprocessor"
    and c: "categories fp = cats"
    by blast
  let ?zn = "zip num_features (zip (means fp) (scales fp))"
  let ?zc = "zip cat_features cats"
  let ?q = "fst build_feature_preprocessor"
  have "\<exists>xs. sequence (map (scale_cell d) ?zn) = Inr xs"
  proof (rule sequence_all_Inr)
    fix r assume "r \<in> set (map (scale_cell d) ?zn)"
    then obtain g ms where g: "(g, ms) \<in> set ?zn" and r: "r = scale_cell d (g, ms)" by auto
    from g have "g \<in> set num_features" by (rule set_zip_leftD)
    with num obtain val x where "d g = Some val" "to_float val = Some x" by blast
    with r show "\<exists>x. r = Inr x" by (cases ms) simp
  qed
  then obtain xs where X: "map (scale_cell d) ?zn = map Inr xs"
    by (auto simp: sequence_Inr_iff)
  have "\<exists>ys. sequence (map (encode_cell ?q d) ?zc) = Inr ys"
  proof (rule sequence_all_Inr)
    fix r assume "r \<in> set (map (encode_cell ?q d) ?zc)"
    then obtain g cs where g: "(g, cs) \<in> set ?zc" and r: "r = encode_cell ?q d (g, cs)"
      by auto
    from g lk obtain j where j: "j < 3" and gj: "g = cat_features ! j" and cj: "cs = cats ! j"
      by (auto simp: in_set_zip)
    from j gj have "g \<in> set cat_features" by simp
    with seen obtain val where val: "d g = Some val" "cat_key val \<in> observed df g" by blast
    with obs j gj cj have "cat_key val \<in> set cs" by simp
    moreover from fitted_homogeneous[OF fit j] c cj
    have "(\<forall>c\<in>set cs. is_number c) \<or> (\<forall>c\<in>set cs. \<not> is_number c)" by simp
    ultimately show "\<exists>x. r = Inr x"
      using encode_cell_seen[of d g val cs, OF val(1)] r by simp
  qed
  then obtain ys where Y: "map (encode_cell ?q d) ?zc = map Inr ys"
    by (auto simp: sequence_Inr_iff)
  have present: "\<forall>c\<in>set (num_features @ cat_features @ remainder_cols fp). d c \<noteq> None"
    using num seen norem by auto
  have "transform fp d = Inr (xs @ concat ys @ [])"
    unfolding transform_Inr_iff p c build_params using present X Y norem by auto
  then show ?thesis by blast
qed

lemma no_remainder:
  assumes fit: "fit_preprocessor (fst build_feature_preprocessor) df = Inr fp"
    and cols: "set (columns df) \<subseteq> set required_features"
  shows "remainder_cols fp = []"
proof -
  from fitted_structure[OF fit]
  have "remainder_cols fp = filter (\<lambda>c. c \<notin> set required_features) (columns df)" by blast
  with cols show ?thesis by (auto simp: filter_empty_conv)
qed

text \<open>
  Claim C1, as the code has it. Let both artifacts be present under the project root, the
  pipeline fitted on a training frame with the eight feature columns and the regression
  fitted on its output (one coefficient per transformed column). For every row that has
  the eight required features, whose numeric features are numeric-typed and whose
  categorical values were all observed at fit time, \<open>predict_gpa\<close> returns a number: the
  raw estimate clamped to [1, 4] and then rounded to two decimals (a whole number of
  hundredths, at most half a hundredth away from the clamped estimate), which lies in
  [1, 4]. For a categorical value that was not observed the encoder raises instead.
\<close>

theorem predict_gpa_range:
  assumes st: "artifacts_stored fs p fp lr"
    and fit: "fit_preprocessor (fst build_feature_preprocessor) df = Inr fp"
    and cols: "set (columns df) \<subseteq> set required_features"
    and dim: "length (coef lr) = 5 + (\<Sum>f\<leftarrow>cat_features. card (observed df f) - 1)"
    and keys: "set required_features \<subseteq> dom d"
    and num: "\<forall>f\<in>set numeric_features. \<exists>val. d f = Some val \<and> is_numeric_dtype val"
    and seen: "\<forall>f\<in>set cat_features. \<exists>val. d f = Some val \<and> cat_key val \<in> observed df f"
  shows "\<exists>x raw. transform fp d = Inr x \<and> predict lr x = Inr raw
           \<and> predict_gpa fs (PyDict d) (PyStr p) = Inr (round2 (np_clip raw 1 4))
           \<and> 1 \<le> round2 (np_clip raw 1 4) \<and> round2 (np_clip raw 1 4) \<le> 4
           \<and> (\<exists>n::int. round2 (np_clip raw 1 4) = of_int n / 100)
           \<and> \<bar>round2 (np_clip raw 1 4) - np_clip raw 1 4\<bar> \<le> 1 / 200"
proof -
  have norem: "remainder_cols fp = []" by (rule no_remainder[OF fit cols])
  have "numeric_features = num_features"
    by (simp add: numeric_features_def num_features_def)
  with num have "\<forall>f\<in>set num_features. \<exists>val x. d f = Some val \<and> to_float val = Some x"
    using is_numeric_to_float by metis
  from transform_fitted_total[OF fit norem this seen]
  obtain x where x: "transform fp d = Inr x" by blast
  from transform_fitted_length[OF fit norem x] dim have "length x = length (coef lr)" by simp
  then obtain raw where raw: "predict lr x = Inr raw" by (simp add: predict_def)
  have "predict_gpa fs (PyDict d) (PyStr p) = Inr (round2 (np_clip raw 1 4))"
    by (simp add: predict_gpa_stored[OF st] predict_loaded_valid[OF keys num] x raw)
  with x raw clipped_round2_range[of raw] round2_two_decimals[of "np_clip raw 1 4"]
  show ?thesis by blast
qed

lemma ex_student_numeric:
  "\<forall>f\<in>set numeric_features. \<exists>val. ex_student f = Some val \<and> is_numeric_dtype val"
  by (simp add: numeric_features_def ex_student_def)

lemma ex_student_seen:
  "\<forall>f\<in>set cat_features. \<exists>val. ex_student f = Some val \<and> cat_key val \<in> observed ex_train f"
  by (simp add: cat_features_def ex_student_def ex_observed)

text \<open>The example row: the raw estimate is 3.13 and so is the prediction.\<close>

theorem predict_gpa_range_witness:
  "artifacts_stored ex_fs ''/proj'' ex_fp ex_lr
   \<and> fit_preprocessor (fst build_feature_preprocessor) ex_train = Inr ex_fp
   \<and> set required_features \<subseteq> dom ex_student
   \<and> transform ex_fp ex_student = Inr [2, 0, 0, 8, 15 / 2, 1, 1, 1]
   \<and> predict ex_lr [2, 0, 0, 8, 15 / 2, 1, 1, 1] = Inr (313 / 100)
   \<and> predict_gpa ex_fs (PyDict ex_student) (PyStr ''/proj'') = Inr (313 / 100)"
proof -
  have cols: "set (columns ex_train) \<subseteq> set required_features" by (simp add: ex_train_def)
  have dim: "length (coef ex_lr) = 5 + (\<Sum>f\<leftarrow>cat_features. card (observed ex_train f) - 1)"
    by (simp add: ex_lr_def cat_features_def ex_observed)
  have keys: "set required_features \<subseteq> dom ex_student" by (simp add: ex_student_dom)
  have "predict ex_lr [2, 0, 0, 8, 15 / 2, 1, 1, 1] = Inr (313 / 100)"
    by (simp add: predict_def ex_lr_def)
  with predict_gpa_range
         [OF ex_stored ex_fit cols dim keys ex_student_numeric ex_student_seen]
    ex_stored ex_fit keys ex_transform ex_predictions(1)
  show ?thesis by blast
qed

text \<open>
  A row with all eight features and numeric-typed numeric features, whose major the
  training frame does not have: \<open>predict_gpa\<close> returns no number, the encoder's error
  propagates.
\<close>

theorem predict_gpa_unseen_category_counterexample:
  "artifacts_stored ex_fs ''/proj'' ex_fp ex_lr
   \<and> set required_features \<subseteq> dom ex_student_unseen_major
   \<and> check_numeric ex_student_unseen_major numeric_features = None
   \<and> predict_gpa ex_fs (PyDict ex_student_unseen_major) (PyStr ''/proj'')
       = Inl (UnknownCategory ''major'' (CStr ''C''))"
proof -
  have k: "set required_features \<subseteq> dom ex_student_unseen_major"
    by (simp add: required_features_def ex_student_unseen_major_def ex_student_def)
  have n: "check_numeric ex_student_unseen_major numeric_features = None"
    by (simp add: numeric_features_def ex_student_unseen_major_def ex_student_def)
  have "transform ex_fp ex_student_unseen_major = Inl (UnknownCategory ''major'' (CStr ''C''))"
    by (simp add: transform_def ex_fp_def ex_student_unseen_major_def ex_student_def Let_def
        num_features_def cat_features_def kept_categories_def)
  with n have "predict_gpa ex_fs (PyDict ex_student_unseen_major) (PyStr ''/proj'')
       = Inl (UnknownCategory ''major'' (CStr ''C''))"
    by (simp add: predict_gpa_stored[OF ex_stored] predict_loaded_def
        required_features_def ex_student_unseen_major_def ex_student_def)
  with ex_stored k n show ?thesis by blast
qed

end
